theory Spec2Isabelle
  imports Complex_Main
begin

section \<open>JavaScript numbers\<close>

text \<open>
  A JavaScript \<open>number\<close> is an IEEE 754 binary64 value. The model keeps the special
  values apart from the finite ones: \<open>NaN\<close>, the two infinities, the negative zero, and
  \<open>Fin r\<close> for a finite value \<open>r\<close> (\<open>Fin 0\<close> is the positive zero). Every finite
  double is a rational number, so the finite doubles are a subset of \<open>Fin r\<close>; results
  of arithmetic are rounded back to that subset by \<open>round64\<close>.
\<close>

datatype jsnum = NaN | PosInf | NegInf | NegZero | Fin real

text \<open>The mathematical value of a finite number (both zeros have value 0).\<close>

fun mv :: "jsnum \<Rightarrow> real" where
  "mv (Fin r) = r"
| "mv _ = 0"

fun is_inf :: "jsnum \<Rightarrow> bool" where
  "is_inf PosInf = True"
| "is_inf NegInf = True"
| "is_inf _ = False"

fun is_zero :: "jsnum \<Rightarrow> bool" where
  "is_zero NegZero = True"
| "is_zero (Fin r) = (r = 0)"
| "is_zero _ = False"

text \<open>The sign bit.\<close>

fun neg :: "jsnum \<Rightarrow> bool" where
  "neg NegInf = True"
| "neg NegZero = True"
| "neg (Fin r) = (r < 0)"
| "neg _ = False"

definition inf_of :: "bool \<Rightarrow> jsnum" where
  "inf_of negative = (if negative then NegInf else PosInf)"

definition zero_of :: "bool \<Rightarrow> jsnum" where
  "zero_of negative = (if negative then NegZero else Fin 0)"

text \<open>\<open>isNaN(x)\<close> on a number.\<close>

definition isNaN :: "jsnum \<Rightarrow> bool" where
  "isNaN x = (x = NaN)"

subsection \<open>Comparison operators\<close>

text \<open>
  \<open>x === y\<close>, \<open>x < y\<close> and \<open>x > y\<close> on numbers: every comparison with \<open>NaN\<close> is
  false (also \<open>NaN === NaN\<close>), the two zeros are equal, and the infinities lie
  below and above every finite value.
\<close>

fun js_eq :: "jsnum \<Rightarrow> jsnum \<Rightarrow> bool" where
  "js_eq NaN _ = False"
| "js_eq _ NaN = False"
| "js_eq PosInf y = (y = PosInf)"
| "js_eq NegInf y = (y = NegInf)"
| "js_eq x PosInf = False"
| "js_eq x NegInf = False"
| "js_eq x y = (mv x = mv y)"

fun js_lt :: "jsnum \<Rightarrow> jsnum \<Rightarrow> bool" where
  "js_lt NaN _ = False"
| "js_lt _ NaN = False"
| "js_lt PosInf _ = False"
| "js_lt _ NegInf = False"
| "js_lt NegInf _ = True"
| "js_lt _ PosInf = True"
| "js_lt x y = (mv x < mv y)"

definition js_gt :: "jsnum \<Rightarrow> jsnum \<Rightarrow> bool" where
  "js_gt x y = js_lt y x"

subsection \<open>Rounding and division\<close>

text \<open>Round to the nearest integer, ties to the even one.\<close>

definition round_half_even :: "real \<Rightarrow> int" where
  "round_half_even x =
     (let f = \<lfloor>x\<rfloor>; d = x - of_int f
      in if d < 1 / 2 then f
         else if 1 / 2 < d then f + 1
         else if even f then f else f + 1)"

text \<open>
  The binary exponent of a positive value \<open>a\<close>, clamped to the exponent range of
  binary64: the \<open>e\<close> with \<open>2^e \<le> a < 2^(e+1)\<close> when that lies between \<open>-1022\<close> and
  \<open>1023\<close>, and the nearer bound otherwise. The range bounds the number of halvings and
  doublings.
\<close>

fun exponent_up :: "nat \<Rightarrow> real \<Rightarrow> int" where
  "exponent_up fuel a =
     (if fuel = 0 \<or> a < 2 then 0 else 1 + exponent_up (fuel - 1) (a / 2))"

fun exponent_down :: "nat \<Rightarrow> real \<Rightarrow> int" where
  "exponent_down fuel a =
     (if fuel = 0 \<or> 1 \<le> a then 0 else exponent_down (fuel - 1) (a * 2) - 1)"

declare exponent_up.simps [simp del]
declare exponent_down.simps [simp del]

definition binade :: "real \<Rightarrow> int" where
  "binade a = (if 1 \<le> a then exponent_up 1023 a else exponent_down 1022 a)"

text \<open>
  The binary64 value nearest to the real \<open>x\<close> (round to nearest, ties to even): the
  significand has 53 bits, so the spacing of doubles around \<open>x\<close> is \<open>2^(e-52)\<close>; a
  result of magnitude \<open>2^1024\<close> overflows to an infinity, and a result that rounds to
  nothing is a zero with the sign of \<open>x\<close>.
\<close>

definition round64 :: "real \<Rightarrow> jsnum" where
  "round64 x =
     (if x = 0 then Fin 0
      else
        let a = \<bar>x\<bar>;
            ulp = 2 powi (binade a - 52);
            r = of_int (round_half_even (a / ulp)) * ulp
        in if 2 powi 1024 \<le> r then inf_of (x < 0)
           else if r = 0 then zero_of (x < 0)
           else Fin (if x < 0 then - r else r))"

text \<open>\<open>x / y\<close> on numbers. Division never throws: a zero divisor gives an infinity or \<open>NaN\<close>.\<close>

definition js_div :: "jsnum \<Rightarrow> jsnum \<Rightarrow> jsnum" where
  "js_div x y =
     (if x = NaN \<or> y = NaN then NaN
      else if is_inf x then (if is_inf y then NaN else inf_of (neg x \<noteq> neg y))
      else if is_inf y then zero_of (neg x \<noteq> neg y)
      else if is_zero y then (if is_zero x then NaN else inf_of (neg x \<noteq> neg y))
      else if is_zero x then zero_of (neg x \<noteq> neg y)
      else round64 (mv x / mv y))"

section \<open>The comparison engine\<close>

text \<open>
  \<open>getComparison\<close> returns an object with the two fields \<open>winner\<close> and \<open>class\<close>
  (\<open>cls\<close> here). The three objects it can return are the three verdicts.
\<close>

record comparison =
  winner :: string
  cls :: string

definition Tie :: comparison where
  "Tie = \<lparr>winner = ''Tie'', cls = ''tie''\<rparr>"

definition FirstWins :: comparison where
  "FirstWins = \<lparr>winner = ''Property 1'', cls = ''winner-1''\<rparr>"

definition SecondWins :: comparison where
  "SecondWins = \<lparr>winner = ''Property 2'', cls = ''winner-2''\<rparr>"

definition getComparison :: "jsnum \<Rightarrow> jsnum \<Rightarrow> bool \<Rightarrow> comparison" where
  "getComparison val1 val2 higherIsBetter =
     (if js_eq val1 val2 then \<lparr>winner = ''Tie'', cls = ''tie''\<rparr>
      else
        let prop1Wins = (if higherIsBetter then js_gt val1 val2 else js_lt val1 val2)
        in if prop1Wins then \<lparr>winner = ''Property 1'', cls = ''winner-1''\<rparr>
           else \<lparr>winner = ''Property 2'', cls = ''winner-2''\<rparr>)"

text \<open>The verdict with the two sides exchanged.\<close>

definition swap_verdict :: "comparison \<Rightarrow> comparison" where
  "swap_verdict c =
     (if c = FirstWins then SecondWins else if c = SecondWins then FirstWins else c)"

subsection \<open>Property records\<close>

text \<open>
  The \<open>Property\<close> interface of the compare panel. The field \<open>_id\<close> is \<open>oid\<close> here and
  \<open>id\<close> is \<open>prop_id\<close>; identifiers are whole numbers.
\<close>

record Property =
  oid :: string
  prop_id :: int
  title :: string
  location :: string
  price :: jsnum
  bedrooms :: jsnum
  bathrooms :: jsnum
  size_sqft :: jsnum
  amenities :: "string list"
  school_rating :: jsnum
  commute_time :: jsnum
  has_garage :: bool
  has_garden :: bool
  has_pool :: bool
  year_built :: jsnum

record ComparisonNotes =
  larger_property :: jsnum
  more_expensive :: jsnum
  more_bedrooms :: jsnum
  more_bathrooms :: jsnum

record ComparisonSummary =
  price_difference :: jsnum
  bedrooms_difference :: jsnum
  bathrooms_difference :: jsnum
  size_difference :: jsnum
  comparison_notes :: ComparisonNotes

record ComparisonResponse =
  status :: string
  property1 :: Property
  property2 :: Property
  comparison_summary :: ComparisonSummary

text \<open>The \<open>length\<close> of an array as a number.\<close>

definition js_length :: "'a list \<Rightarrow> jsnum" where
  "js_length xs = Fin (of_nat (length xs))"

subsection \<open>Per-attribute analysis\<close>

text \<open>
  The object returned by \<open>getAnalysis\<close>; its keys \<open>price\<close>, \<open>size\<close>, \<open>bedrooms\<close>,
  \<open>bathrooms\<close>, \<open>school\<close>, \<open>commute\<close>, \<open>year\<close>, \<open>value\<close> carry the names of the local
  constants they are filled from.
\<close>

record analysis =
  priceComp :: comparison
  sizeComp :: comparison
  bedroomComp :: comparison
  bathroomComp :: comparison
  schoolComp :: comparison
  commuteComp :: comparison
  yearComp :: comparison
  valueComp :: comparison

definition getAnalysis :: "Property \<Rightarrow> Property \<Rightarrow> analysis" where
  "getAnalysis p1 p2 =
     \<lparr>priceComp = getComparison (price p1) (price p2) False,
      sizeComp = getComparison (size_sqft p1) (size_sqft p2) True,
      bedroomComp = getComparison (bedrooms p1) (bedrooms p2) True,
      bathroomComp = getComparison (bathrooms p1) (bathrooms p2) True,
      schoolComp = getComparison (school_rating p1) (school_rating p2) True,
      commuteComp = getComparison (commute_time p1) (commute_time p2) False,
      yearComp = getComparison (year_built p1) (year_built p2) True,
      valueComp = getComparison (js_div (price p1) (size_sqft p1))
                    (js_div (price p2) (size_sqft p2)) False\<rparr>"

text \<open>\<open>Object.values(analysis)\<close>: the values in the order the keys were inserted.\<close>

definition object_values :: "analysis \<Rightarrow> comparison list" where
  "object_values a =
     [priceComp a, sizeComp a, bedroomComp a, bathroomComp a,
      schoolComp a, commuteComp a, yearComp a, valueComp a]"

subsection \<open>Overall winner\<close>

text \<open>Decimal rendering of a whole number inside a template string.\<close>

definition digit_char :: "nat \<Rightarrow> char" where
  "digit_char d = ''0123456789'' ! d"

fun show_nat :: "nat \<Rightarrow> string" where
  "show_nat n =
     (if n < 10 then [digit_char n] else show_nat (n div 10) @ [digit_char (n mod 10)])"

declare show_nat.simps [simp del]

definition show_int :: "int \<Rightarrow> string" where
  "show_int i = (if i < 0 then CHR ''-'' # show_nat (nat (- i)) else show_nat (nat i))"

text \<open>
  What \<open>renderOverallWinner\<close> computes before it builds the markup: the badge (title,
  class, message) and the three counts of the score breakdown.
\<close>

record overall =
  overallWinner :: string
  winnerClass :: string
  winnerMessage :: string
  property1Wins :: nat
  property2Wins :: nat
  ties :: nat

definition allComparisons :: "analysis \<Rightarrow> ComparisonResponse \<Rightarrow> comparison list" where
  "allComparisons a comparisonResult =
     (let analysisValues = object_values a;
          amenitiesComp = getComparison (js_length (amenities (property1 comparisonResult)))
                            (js_length (amenities (property2 comparisonResult))) True
      in analysisValues @ [amenitiesComp])"

definition renderOverallWinner :: "analysis \<Rightarrow> ComparisonResponse \<Rightarrow> overall" where
  "renderOverallWinner a comparisonResult =
     (let all = allComparisons a comparisonResult;
          p1Wins = length (filter (\<lambda>item. cls item = ''winner-1'') all);
          p2Wins = length (filter (\<lambda>item. cls item = ''winner-2'') all);
          nties = length (filter (\<lambda>item. cls item = ''tie'') all);
          id1 = show_int (prop_id (property1 comparisonResult));
          id2 = show_int (prop_id (property2 comparisonResult))
      in if p2Wins < p1Wins then
           \<lparr>overallWinner = ''Property '' @ id1, winnerClass = ''overall-winner-1'',
            winnerMessage = ''Property '' @ id1 @ '' is the winner'',
            property1Wins = p1Wins, property2Wins = p2Wins, ties = nties\<rparr>
         else if p1Wins < p2Wins then
           \<lparr>overallWinner = ''Property '' @ id2, winnerClass = ''overall-winner-2'',
            winnerMessage = ''Property '' @ id2 @ '' is the winner'',
            property1Wins = p1Wins, property2Wins = p2Wins, ties = nties\<rparr>
         else
           \<lparr>overallWinner = ''It's a Tie!'', winnerClass = ''overall-tie'',
            winnerMessage = ''Both properties are equally matched'',
            property1Wins = p1Wins, property2Wins = p2Wins, ties = nties\<rparr>)"

text \<open>
  \<open>renderComparisonResults\<close> shows nothing while no result is stored; otherwise it
  analyses the two properties of the stored result and renders the overall winner from
  that analysis.
\<close>

definition renderComparisonResults :: "ComparisonResponse option \<Rightarrow> overall option" where
  "renderComparisonResults comparisonResult =
     (case comparisonResult of
        None \<Rightarrow> None
      | Some r \<Rightarrow> Some (renderOverallWinner (getAnalysis (property1 r) (property2 r)) r))"

section \<open>Panels\<close>

subsection \<open>Outcome of a fetch\<close>

text \<open>
  A value caught by \<open>catch (err)\<close> is an \<open>Error\<close> object with its message, or something
  else. A \<open>fetch\<close> either rejects, or resolves to a response with a status code whose
  body parses (\<open>response.json()\<close>) to a result or rejects in turn. \<open>response.ok\<close> holds
  for the statuses 200 to 299.
\<close>

datatype thrown = Error string | NotAnError

datatype 'r fetch_outcome = Rejected thrown | Response nat "thrown + 'r"

definition ok :: "nat \<Rightarrow> bool" where
  "ok code = (200 \<le> code \<and> code \<le> 299)"

text \<open>\<open>err instanceof Error ? err.message : 'Unknown error'\<close>\<close>

definition error_message :: "thrown \<Rightarrow> string" where
  "error_message err = (case err of Error message \<Rightarrow> message | NotAnError \<Rightarrow> ''Unknown error'')"

text \<open>
  The body of a \<open>try\<close> block after the \<open>fetch\<close>: it throws what the fetch or the parse
  threw, throws an \<open>Error\<close> with the message for the status when the response is not ok,
  and yields the parsed result otherwise.
\<close>

definition await_json :: "(nat \<Rightarrow> string) \<Rightarrow> 'r fetch_outcome \<Rightarrow> thrown + 'r" where
  "await_json errorMsg outcome =
     (case outcome of
        Rejected err \<Rightarrow> Inl err
      | Response code body \<Rightarrow> if \<not> ok code then Inl (Error (errorMsg code)) else body)"

definition http_error :: "nat \<Rightarrow> string" where
  "http_error code = ''HTTP error! status: '' @ show_nat code"

subsection \<open>Strings of form fields\<close>

text \<open>
  White space as \<open>trim\<close> and \<open>parseInt\<close> skip it, restricted to the ASCII range (tab,
  line feed, vertical tab, form feed, carriage return, space).
\<close>

definition is_whitespace :: "char \<Rightarrow> bool" where
  "is_whitespace c = (c \<in> set [CHR 0x09, CHR 0x0A, CHR 0x0B, CHR 0x0C, CHR 0x0D, CHR '' ''])"

definition trim :: "string \<Rightarrow> string" where
  "trim s = rev (dropWhile is_whitespace (rev (dropWhile is_whitespace s)))"

text \<open>The value of a character as a digit: \<open>0-9\<close>, \<open>a-f\<close>, \<open>A-F\<close>.\<close>

definition digit_value :: "char \<Rightarrow> nat option" where
  "digit_value c =
     (let n = (of_char c :: nat)
      in if 48 \<le> n \<and> n \<le> 57 then Some (n - 48)
         else if 97 \<le> n \<and> n \<le> 102 then Some (n - 87)
         else if 65 \<le> n \<and> n \<le> 70 then Some (n - 55)
         else None)"

definition is_digit :: "nat \<Rightarrow> char \<Rightarrow> bool" where
  "is_digit radix c = (case digit_value c of None \<Rightarrow> False | Some d \<Rightarrow> d < radix)"

definition digits_value :: "nat \<Rightarrow> string \<Rightarrow> nat" where
  "digits_value radix ds =
     foldl (\<lambda>acc c. case digit_value c of None \<Rightarrow> acc | Some d \<Rightarrow> acc * radix + d) 0 ds"

text \<open>
  \<open>parseInt(s)\<close> without a radix: skip leading white space, read an optional sign and
  an optional \<open>0x\<close> prefix, then the longest run of digits; no digit gives \<open>NaN\<close>, and
  what follows the digits is ignored.
\<close>

definition parseInt :: "string \<Rightarrow> jsnum" where
  "parseInt inputString =
     (let s = dropWhile is_whitespace inputString;
          negative = (take 1 s = ''-'');
          s = (if take 1 s = ''-'' \<or> take 1 s = ''+'' then drop 1 s else s);
          hex = (take 2 s = ''0x'' \<or> take 2 s = ''0X'');
          radix = (if hex then 16 else 10);
          s = (if hex then drop 2 s else s);
          z = takeWhile (is_digit radix) s;
          mathInt = digits_value radix z
      in if z = [] then NaN
         else if mathInt = 0 then zero_of negative
         else round64 (if negative then - of_nat mathInt else of_nat mathInt))"

subsection \<open>Compare panel\<close>

record compare_state =
  compareId1 :: string
  compareId2 :: string
  comparisonResult :: "ComparisonResponse option"
  compareLoading :: bool
  compare_error :: "string option"

definition CompareProperties_init :: compare_state where
  "CompareProperties_init =
     \<lparr>compareId1 = ''1'', compareId2 = ''2'', comparisonResult = None,
      compareLoading = False, compare_error = None\<rparr>"

text \<open>The body of the POST to \<open>/comparebyid\<close>.\<close>

record compare_request =
  id1 :: jsnum
  id2 :: jsnum

text \<open>
  \<open>compareProperties\<close> up to its \<open>await fetch\<close>: the validation, which returns after
  \<open>setError\<close> without a request, and otherwise the two state updates and the request that
  is sent.
\<close>

definition compareProperties_begin :: "compare_state \<Rightarrow> compare_state \<times> compare_request option" where
  "compareProperties_begin s =
     (let i1 = parseInt (compareId1 s);
          i2 = parseInt (compareId2 s)
      in if compareId1 s = [] \<or> compareId2 s = [] then
           (s\<lparr>compare_error := Some ''Please enter both property IDs''\<rparr>, None)
         else if compareId1 s = compareId2 s then
           (s\<lparr>compare_error := Some ''Please enter different property IDs''\<rparr>, None)
         else if isNaN i1 \<or> isNaN i2 then
           (s\<lparr>compare_error := Some ''Please enter valid numeric IDs''\<rparr>, None)
         else
           (s\<lparr>compareLoading := True, compare_error := None\<rparr>, Some \<lparr>id1 = i1, id2 = i2\<rparr>))"

definition compare_errorMsg :: "nat \<Rightarrow> string" where
  "compare_errorMsg code =
     (if code = 404 then ''Property ID not found'' else http_error code)"

text \<open>
  \<open>compareProperties\<close> from the moment the fetch settles: the rest of the \<open>try\<close> block,
  the \<open>catch\<close> and the \<open>finally\<close>, applied to the state the panel has by then. The
  parsed body is taken at its declared type \<open>ComparisonResponse\<close>; a body that parses to
  \<open>null\<close> is stored by the panel like any other and is outside this model.
\<close>

definition compareProperties_settle ::
  "ComparisonResponse fetch_outcome \<Rightarrow> compare_state \<Rightarrow> compare_state" where
  "compareProperties_settle outcome s =
     (let s = (case await_json compare_errorMsg outcome of
                 Inr result \<Rightarrow> s\<lparr>comparisonResult := Some result\<rparr>
               | Inl err \<Rightarrow> s\<lparr>compare_error := Some (error_message err)\<rparr>)
      in s\<lparr>compareLoading := False\<rparr>)"

text \<open>
  One click on the compare button with the outcome its fetch will have: the final state
  and the requests that went out.
\<close>

definition compareProperties ::
  "ComparisonResponse fetch_outcome \<Rightarrow> compare_state \<Rightarrow> compare_state \<times> compare_request list" where
  "compareProperties outcome s =
     (case compareProperties_begin s of
        (s', None) \<Rightarrow> (s', [])
      | (s', Some request) \<Rightarrow> (compareProperties_settle outcome s', [request]))"

subsection \<open>Further operators on numbers\<close>

text \<open>\<open>x <= y\<close> and \<open>x >= y\<close>; both are false when one side is \<open>NaN\<close>.\<close>

definition js_le :: "jsnum \<Rightarrow> jsnum \<Rightarrow> bool" where
  "js_le x y = (js_lt x y \<or> js_eq x y)"

definition js_ge :: "jsnum \<Rightarrow> jsnum \<Rightarrow> bool" where
  "js_ge x y = (js_gt x y \<or> js_eq x y)"

text \<open>
  The conversion \<open>Number(s)\<close> of a string is a function of the language; the panels
  below take it as the parameter \<open>Number\<close>.
\<close>

type_synonym to_number = "string \<Rightarrow> jsnum"

text \<open>\<open>if (validationError) return setError(validationError)\<close>: only a non-empty string counts.\<close>

definition truthy :: "string option \<Rightarrow> bool" where
  "truthy v = (case v of None \<Rightarrow> False | Some m \<Rightarrow> m \<noteq> [])"

subsection \<open>Search panel\<close>

text \<open>
  The state of \<open>SearchProperties\<close>. The stored response is kept as it was parsed, so
  its type is a parameter. Fields whose names other panels use too carry the panel's name.
\<close>

record 'r search_state =
  search_location :: string
  budget :: string
  search_bedrooms :: string
  search_bathrooms :: string
  minSizesqft :: string
  amenitiesInput :: string
  searchResults :: "'r option"
  search_loading :: bool
  search_error :: "string option"

definition SearchProperties_init :: "'r search_state" where
  "SearchProperties_init =
     \<lparr>search_location = '''', budget = '''', search_bedrooms = '''', search_bathrooms = '''',
      minSizesqft = '''', amenitiesInput = '''', searchResults = None,
      search_loading = False, search_error = None\<rparr>"

text \<open>An absent key of \<open>SearchPreferences\<close> is \<open>None\<close>.\<close>

record SearchPreferences =
  pref_bedrooms :: "jsnum option"
  pref_bathrooms :: "jsnum option"
  pref_min_size_sqft :: "jsnum option"
  pref_amenities :: "string list option"

record SearchRequest =
  req_location :: string
  req_budget :: jsnum
  preferences :: "SearchPreferences option"

text \<open>\<open>s.split(',')\<close>\<close>

fun split_on :: "char \<Rightarrow> string \<Rightarrow> string list" where
  "split_on sep [] = [[]]"
| "split_on sep (c # cs) =
     (if c = sep then [] # split_on sep cs
      else case split_on sep cs of [] \<Rightarrow> [[c]] | w # ws \<Rightarrow> (c # w) # ws)"

definition buildPreferences :: "to_number \<Rightarrow> 'r search_state \<Rightarrow> SearchPreferences option" where
  "buildPreferences Number s =
     (let prefs = \<lparr>pref_bedrooms = None, pref_bathrooms = None, pref_min_size_sqft = None,
                   pref_amenities = None\<rparr>;
          prefs = (if trim (search_bedrooms s) \<noteq> [] \<and> js_gt (Number (search_bedrooms s)) (Fin 0)
                   then prefs\<lparr>pref_bedrooms := Some (Number (search_bedrooms s))\<rparr> else prefs);
          prefs = (if trim (search_bathrooms s) \<noteq> [] \<and> js_gt (Number (search_bathrooms s)) (Fin 0)
                   then prefs\<lparr>pref_bathrooms := Some (Number (search_bathrooms s))\<rparr> else prefs);
          prefs = (if trim (minSizesqft s) \<noteq> [] \<and> js_gt (Number (minSizesqft s)) (Fin 0)
                   then prefs\<lparr>pref_min_size_sqft := Some (Number (minSizesqft s))\<rparr> else prefs);
          prefs = (if trim (amenitiesInput s) \<noteq> [] then
                     let items = filter (\<lambda>item. item \<noteq> [])
                                   (map trim (split_on CHR '','' (amenitiesInput s)))
                     in if 0 < length items then prefs\<lparr>pref_amenities := Some items\<rparr> else prefs
                   else prefs)
      in if pref_bedrooms prefs \<noteq> None \<or> pref_bathrooms prefs \<noteq> None
            \<or> pref_min_size_sqft prefs \<noteq> None \<or> pref_amenities prefs \<noteq> None
         then Some prefs else None)"

definition handleSearch_begin ::
  "to_number \<Rightarrow> 'r search_state \<Rightarrow> 'r search_state \<times> SearchRequest option" where
  "handleSearch_begin Number s =
     (if trim (search_location s) = [] then
        (s\<lparr>search_error := Some ''Location is required''\<rparr>, None)
      else if trim (budget s) = [] \<or> js_le (Number (budget s)) (Fin 0) then
        (s\<lparr>search_error := Some ''Please enter a valid budget amount''\<rparr>, None)
      else
        (s\<lparr>search_loading := True, search_error := None\<rparr>,
         Some \<lparr>req_location = trim (search_location s), req_budget = Number (budget s),
               preferences = buildPreferences Number s\<rparr>))"

definition search_errorMsg :: "nat \<Rightarrow> string" where
  "search_errorMsg code =
     (if code = 400 then ''Invalid search parameters'' else http_error code)"

definition handleSearch_settle :: "'r fetch_outcome \<Rightarrow> 'r search_state \<Rightarrow> 'r search_state" where
  "handleSearch_settle outcome s =
     (let s = (case await_json search_errorMsg outcome of
                 Inr result \<Rightarrow> s\<lparr>searchResults := Some result\<rparr>
               | Inl err \<Rightarrow> s\<lparr>search_error := Some (error_message err)\<rparr>)
      in s\<lparr>search_loading := False\<rparr>)"

definition search_resetForm :: "'r search_state \<Rightarrow> 'r search_state" where
  "search_resetForm s =
     s\<lparr>search_location := '''', budget := '''', search_bedrooms := '''',
       search_bathrooms := '''', minSizesqft := '''', amenitiesInput := '''',
       searchResults := None, search_error := None\<rparr>"

subsection \<open>Prediction panel\<close>

record 'r prediction_state =
  propertyType :: string
  lotArea :: string
  buildingArea :: string
  pred_bedrooms :: string
  pred_bathrooms :: string
  yearBuilt :: string
  hasPool :: bool
  hasGarage :: bool
  schoolRating :: string
  predictionResult :: "'r option"
  pred_loading :: bool
  pred_error :: "string option"

definition Prediction_init :: "'r prediction_state" where
  "Prediction_init =
     \<lparr>propertyType = ''SFH'', lotArea = '''', buildingArea = '''', pred_bedrooms = '''',
      pred_bathrooms = '''', yearBuilt = '''', hasPool = False, hasGarage = False,
      schoolRating = '''', predictionResult = None, pred_loading = False, pred_error = None\<rparr>"

record PredictionRequest =
  property_type :: string
  req_bedrooms :: jsnum
  req_bathrooms :: jsnum
  req_year_built :: jsnum
  req_has_pool :: bool
  req_has_garage :: bool
  req_school_rating :: jsnum
  lot_area :: "jsnum option"
  building_area :: "jsnum option"

definition validateField :: "to_number \<Rightarrow> string \<Rightarrow> jsnum \<Rightarrow> jsnum \<Rightarrow> bool" where
  "validateField Number v lo hi =
     (trim v \<noteq> [] \<and> \<not> isNaN (Number v) \<and> js_ge (Number v) lo \<and> js_le (Number v) hi)"

text \<open>\<open>currentYear\<close> is the year of the clock, \<open>new Date().getFullYear()\<close>.\<close>

definition pred_validateForm :: "to_number \<Rightarrow> nat \<Rightarrow> 'r prediction_state \<Rightarrow> string option" where
  "pred_validateForm Number currentYear s =
     (if propertyType s = ''SFH'' \<and> \<not> validateField Number (lotArea s) (Fin 1) PosInf then
        Some ''Please enter a valid lot area (greater than 0)''
      else if propertyType s = ''Condo'' \<and> \<not> validateField Number (buildingArea s) (Fin 1) PosInf then
        Some ''Please enter a valid building area (greater than 0)''
      else if \<not> validateField Number (pred_bedrooms s) (Fin 0) (Fin 50) then
        Some ''Please enter valid bedrooms (0-50)''
      else if \<not> validateField Number (pred_bathrooms s) (Fin 0) (Fin 20) then
        Some ''Please enter valid bathrooms (0-20)''
      else if \<not> validateField Number (yearBuilt s) (Fin 1800) (Fin (of_nat (currentYear + 5))) then
        Some (''Please enter valid year built (1800-'' @ show_nat (currentYear + 5) @ '')'')
      else if \<not> validateField Number (schoolRating s) (Fin 1) (Fin 10) then
        Some ''Please enter valid school rating (1-10)''
      else None)"

definition handlePredict_begin ::
  "to_number \<Rightarrow> nat \<Rightarrow> 'r prediction_state \<Rightarrow> 'r prediction_state \<times> PredictionRequest option" where
  "handlePredict_begin Number currentYear s =
     (let validationError = pred_validateForm Number currentYear s
      in if truthy validationError then (s\<lparr>pred_error := validationError\<rparr>, None)
         else
           (s\<lparr>pred_loading := True, pred_error := None\<rparr>,
            Some \<lparr>property_type = propertyType s,
                  req_bedrooms = Number (pred_bedrooms s),
                  req_bathrooms = Number (pred_bathrooms s),
                  req_year_built = Number (yearBuilt s),
                  req_has_pool = hasPool s,
                  req_has_garage = hasGarage s,
                  req_school_rating = Number (schoolRating s),
                  lot_area = (if propertyType s = ''SFH'' then Some (Number (lotArea s)) else None),
                  building_area =
                    (if propertyType s = ''Condo'' then Some (Number (buildingArea s)) else None)\<rparr>))"

definition predict_errorMsg :: "nat \<Rightarrow> string" where
  "predict_errorMsg code = (if code = 400 then ''Invalid request data'' else http_error code)"

definition handlePredict_settle ::
  "'r fetch_outcome \<Rightarrow> 'r prediction_state \<Rightarrow> 'r prediction_state" where
  "handlePredict_settle outcome s =
     (let s = (case await_json predict_errorMsg outcome of
                 Inr result \<Rightarrow> s\<lparr>predictionResult := Some result\<rparr>
               | Inl err \<Rightarrow> s\<lparr>pred_error := Some (error_message err)\<rparr>)
      in s\<lparr>pred_loading := False\<rparr>)"

definition pred_resetForm :: "'r prediction_state \<Rightarrow> 'r prediction_state" where
  "pred_resetForm s =
     s\<lparr>propertyType := ''SFH'', lotArea := '''', buildingArea := '''', pred_bedrooms := '''',
       pred_bathrooms := '''', yearBuilt := '''', hasPool := False, hasGarage := False,
       schoolRating := '''', predictionResult := None, pred_error := None\<rparr>"

subsection \<open>Recommendation panel\<close>

record 'r recommendation_state =
  userBudget :: string
  userMinBedrooms :: string
  recommendationResult :: "'r option"
  rec_loading :: bool
  rec_error :: "string option"

definition Recommendation_init :: "'r recommendation_state" where
  "Recommendation_init =
     \<lparr>userBudget = '''', userMinBedrooms = '''', recommendationResult = None,
      rec_loading = False, rec_error = None\<rparr>"

record RecommendationRequest =
  user_budget :: jsnum
  user_min_bedrooms :: jsnum

definition rec_validateForm :: "to_number \<Rightarrow> 'r recommendation_state \<Rightarrow> string option" where
  "rec_validateForm Number s =
     (let b = Number (userBudget s);
          n = Number (userMinBedrooms s)
      in if trim (userBudget s) = [] \<or> isNaN b \<or> js_le b (Fin 0) then
           Some ''Please enter a valid budget (greater than 0)''
         else if trim (userMinBedrooms s) = [] \<or> isNaN n \<or> js_lt n (Fin 1) then
           Some ''Please enter valid minimum bedrooms (1 or greater)''
         else None)"

definition handleRecommendation_begin ::
  "to_number \<Rightarrow> 'r recommendation_state \<Rightarrow> 'r recommendation_state \<times> RecommendationRequest option" where
  "handleRecommendation_begin Number s =
     (let validationError = rec_validateForm Number s
      in if truthy validationError then (s\<lparr>rec_error := validationError\<rparr>, None)
         else
           (s\<lparr>rec_loading := True, rec_error := None\<rparr>,
            Some \<lparr>user_budget = Number (userBudget s),
                  user_min_bedrooms = Number (userMinBedrooms s)\<rparr>))"

definition recommend_errorMsg :: "nat \<Rightarrow> string" where
  "recommend_errorMsg code =
     (if code = 400 \<or> code = 404 then ''No properties found for your criteria''
      else http_error code)"

definition handleRecommendation_settle ::
  "'r fetch_outcome \<Rightarrow> 'r recommendation_state \<Rightarrow> 'r recommendation_state" where
  "handleRecommendation_settle outcome s =
     (let s = (case await_json recommend_errorMsg outcome of
                 Inr result \<Rightarrow> s\<lparr>recommendationResult := Some result\<rparr>
               | Inl err \<Rightarrow> s\<lparr>rec_error := Some (error_message err)\<rparr>)
      in s\<lparr>rec_loading := False\<rparr>)"

definition rec_resetForm :: "'r recommendation_state \<Rightarrow> 'r recommendation_state" where
  "rec_resetForm s =
     s\<lparr>userBudget := '''', userMinBedrooms := '''', recommendationResult := None,
       rec_error := None\<rparr>"

subsection \<open>Property list panel\<close>

text \<open>
  The state of \<open>Properties\<close>; the list entries and the detail record are stored as they
  were parsed. The panel has two busy flags, one for each of its two calls.
\<close>

record ('p, 'd) properties_state =
  properties :: "'p list"
  totalProperties :: jsnum
  list_loading :: bool
  list_error :: "string option"
  selectedProperty :: "'d option"
  showModal :: bool
  detailsLoading :: bool

definition Properties_init :: "('p, 'd) properties_state" where
  "Properties_init =
     \<lparr>properties = [], totalProperties = Fin 0, list_loading = True, list_error = None,
      selectedProperty = None, showModal = False, detailsLoading = False\<rparr>"

text \<open>
  The two responses. \<open>list_properties\<close> is \<open>None\<close> when \<open>result.properties\<close> is not an
  array, \<open>detail_property\<close> is \<open>None\<close> when \<open>result.property\<close> is missing.
\<close>

record 'p PropertiesResponse =
  list_status :: string
  total_properties :: jsnum
  list_properties :: "'p list option"

record 'd PropertyDetailResponse =
  detail_status :: string
  detail_property :: "'d option"

definition fetchProperties_begin :: "('p, 'd) properties_state \<Rightarrow> ('p, 'd) properties_state" where
  "fetchProperties_begin s = s\<lparr>list_loading := True, list_error := None\<rparr>"

definition fetchProperties_settle ::
  "'p PropertiesResponse fetch_outcome \<Rightarrow> ('p, 'd) properties_state \<Rightarrow> ('p, 'd) properties_state" where
  "fetchProperties_settle outcome s =
     (let s = (case await_json http_error outcome of
                 Inr result \<Rightarrow>
                   (case list_properties result of
                      Some ps \<Rightarrow>
                        if list_status result = ''success'' then
                          s\<lparr>properties := ps, totalProperties := total_properties result\<rparr>
                        else s\<lparr>properties := [], totalProperties := Fin 0\<rparr>
                    | None \<Rightarrow> s\<lparr>properties := [], totalProperties := Fin 0\<rparr>)
               | Inl err \<Rightarrow>
                   s\<lparr>list_error := Some (''Failed to fetch properties: '' @ error_message err)\<rparr>)
      in s\<lparr>list_loading := False\<rparr>)"

definition fetchPropertyDetails_begin ::
  "('p, 'd) properties_state \<Rightarrow> ('p, 'd) properties_state" where
  "fetchPropertyDetails_begin s = s\<lparr>detailsLoading := True\<rparr>"

definition fetchPropertyDetails_settle ::
  "'d PropertyDetailResponse fetch_outcome \<Rightarrow> ('p, 'd) properties_state \<Rightarrow> ('p, 'd) properties_state" where
  "fetchPropertyDetails_settle outcome s =
     (let s = (case await_json http_error outcome of
                 Inr result \<Rightarrow>
                   (case detail_property result of
                      Some p \<Rightarrow>
                        if detail_status result = ''success'' then
                          s\<lparr>selectedProperty := Some p, showModal := True\<rparr>
                        else s
                    | None \<Rightarrow> s)
               | Inl err \<Rightarrow>
                   s\<lparr>list_error := Some (''Failed to fetch details: '' @ error_message err)\<rparr>)
      in s\<lparr>detailsLoading := False\<rparr>)"

definition closeModal :: "('p, 'd) properties_state \<Rightarrow> ('p, 'd) properties_state" where
  "closeModal s = s\<lparr>showModal := False, selectedProperty := None\<rparr>"

section \<open>The specification's vocabulary\<close>

text \<open>
  The nine attributes the specification tallies, in the order in which the panel collects
  their verdicts, with the polarity the specification declares for each: higher is better
  for size, bedrooms, bathrooms, school rating, year built and amenity count; lower is
  better for price, commute time and price per unit area.
\<close>

datatype attribute =
  Price | Size | Bedrooms | Bathrooms | SchoolRating | CommuteTime | YearBuilt
  | PricePerArea | AmenityCount

fun higher_is_better :: "attribute \<Rightarrow> bool" where
  "higher_is_better Size = True"
| "higher_is_better Bedrooms = True"
| "higher_is_better Bathrooms = True"
| "higher_is_better SchoolRating = True"
| "higher_is_better YearBuilt = True"
| "higher_is_better AmenityCount = True"
| "higher_is_better Price = False"
| "higher_is_better CommuteTime = False"
| "higher_is_better PricePerArea = False"

text \<open>
  The value of an attribute on a record: price per unit area is price divided by size,
  amenity count is the length of the amenity list.
\<close>

fun attribute_value :: "attribute \<Rightarrow> Property \<Rightarrow> jsnum" where
  "attribute_value Price p = price p"
| "attribute_value Size p = size_sqft p"
| "attribute_value Bedrooms p = bedrooms p"
| "attribute_value Bathrooms p = bathrooms p"
| "attribute_value SchoolRating p = school_rating p"
| "attribute_value CommuteTime p = commute_time p"
| "attribute_value YearBuilt p = year_built p"
| "attribute_value PricePerArea p = js_div (price p) (size_sqft p)"
| "attribute_value AmenityCount p = js_length (amenities p)"

fun attribute_index :: "attribute \<Rightarrow> nat" where
  "attribute_index Price = 0"
| "attribute_index Size = 1"
| "attribute_index Bedrooms = 2"
| "attribute_index Bathrooms = 3"
| "attribute_index SchoolRating = 4"
| "attribute_index CommuteTime = 5"
| "attribute_index YearBuilt = 6"
| "attribute_index PricePerArea = 7"
| "attribute_index AmenityCount = 8"

definition tallied_attributes :: "attribute list" where
  "tallied_attributes =
     [Price, Size, Bedrooms, Bathrooms, SchoolRating, CommuteTime, YearBuilt,
      PricePerArea, AmenityCount]"

text \<open>The verdicts the specification asks for: one per tallied attribute.\<close>

definition tallied_verdicts :: "ComparisonResponse \<Rightarrow> comparison list" where
  "tallied_verdicts r =
     map (\<lambda>a. getComparison (attribute_value a (property1 r)) (attribute_value a (property2 r))
                (higher_is_better a)) tallied_attributes"

text \<open>
  What the panel does with a stored result \<open>r\<close>: the list it tallies, the verdict it
  shows for one attribute, and the overall winner it renders.
\<close>

definition tally :: "ComparisonResponse \<Rightarrow> comparison list" where
  "tally r = allComparisons (getAnalysis (property1 r) (property2 r)) r"

definition attribute_verdict :: "attribute \<Rightarrow> ComparisonResponse \<Rightarrow> comparison" where
  "attribute_verdict a r = tally r ! attribute_index a"

definition overall_of :: "ComparisonResponse \<Rightarrow> overall" where
  "overall_of r = renderOverallWinner (getAnalysis (property1 r) (property2 r)) r"

definition is_verdict :: "comparison \<Rightarrow> bool" where
  "is_verdict c = (c = Tie \<or> c = FirstWins \<or> c = SecondWins)"

section \<open>Example inputs\<close>

text \<open>
  Two listings: the first is cheaper, larger, nearer and has more amenities, the second is
  newer. The third is the first with a size of zero, the fourth has price and size zero.
\<close>

definition listing_A :: Property where
  "listing_A =
     \<lparr>oid = ''65a1'', prop_id = 1, title = ''Loft'', location = ''Austin'',
      price = Fin 300000, bedrooms = Fin 3, bathrooms = Fin 2, size_sqft = Fin 1500,
      amenities = [''gym'', ''parking''], school_rating = Fin 4, commute_time = Fin 25,
      has_garage = True, has_garden = False, has_pool = False, year_built = Fin 2010\<rparr>"

definition listing_B :: Property where
  "listing_B =
     \<lparr>oid = ''65a2'', prop_id = 2, title = ''Bungalow'', location = ''Austin'',
      price = Fin 320000, bedrooms = Fin 3, bathrooms = Fin 2, size_sqft = Fin 1400,
      amenities = [''gym''], school_rating = Fin 4, commute_time = Fin 30,
      has_garage = False, has_garden = True, has_pool = False, year_built = Fin 2015\<rparr>"

definition listing_Z :: Property where
  "listing_Z = listing_A\<lparr>prop_id := 3, size_sqft := Fin 0\<rparr>"

definition listing_N :: Property where
  "listing_N = listing_A\<lparr>prop_id := 4, price := Fin 0, size_sqft := Fin 0\<rparr>"

definition response_of :: "Property \<Rightarrow> Property \<Rightarrow> ComparisonResponse" where
  "response_of p1 p2 =
     \<lparr>status = ''success'', property1 = p1, property2 = p2,
      comparison_summary =
        \<lparr>price_difference = Fin 0, bedrooms_difference = Fin 0,
         bathrooms_difference = Fin 0, size_difference = Fin 0,
         comparison_notes =
           \<lparr>larger_property = Fin 1, more_expensive = Fin 2, more_bedrooms = Fin 1,
            more_bathrooms = Fin 1\<rparr>\<rparr>\<rparr>"

text \<open>
  A stand-in for \<open>Number\<close> on the strings typed into the example forms; it agrees with
  the conversion of the language on these strings and on strings that are no numbers.
\<close>

definition Number_of_example :: to_number where
  "Number_of_example s =
     (if s = ''500000'' then Fin 500000
      else if s = ''5000'' then Fin 5000
      else if s = ''2000'' then Fin 2000
      else if s = ''3'' then Fin 3
      else if s = ''2'' then Fin 2
      else if s = ''8'' then Fin 8
      else NaN)"

definition search_form :: "unit search_state" where
  "search_form = SearchProperties_init\<lparr>search_location := ''Austin'', budget := ''500000''\<rparr>"

definition prediction_form :: "unit prediction_state" where
  "prediction_form =
     Prediction_init\<lparr>lotArea := ''5000'', pred_bedrooms := ''3'', pred_bathrooms := ''2'',
       yearBuilt := ''2000'', schoolRating := ''8''\<rparr>"

definition recommendation_form :: "unit recommendation_state" where
  "recommendation_form = Recommendation_init\<lparr>userBudget := ''500000'', userMinBedrooms := ''3''\<rparr>"

section \<open>Properties of the number model\<close>

lemma js_trichotomy:
  "v1 \<noteq> NaN \<Longrightarrow> v2 \<noteq> NaN \<Longrightarrow> js_eq v1 v2 \<or> js_lt v1 v2 \<or> js_lt v2 v1"
  by (cases v1; cases v2; auto)

lemma js_eq_sym: "js_eq v1 v2 = js_eq v2 v1"
  by (cases v1; cases v2; auto)

lemma js_lt_asym: "js_lt v1 v2 \<Longrightarrow> \<not> js_lt v2 v1 \<and> \<not> js_eq v1 v2"
  by (cases v1; cases v2; auto)

text \<open>Dividing by a zero never fails and never gives a finite number.\<close>

lemma js_div_by_zero:
  "is_zero z \<Longrightarrow>
   js_div p z = (if isNaN p \<or> is_zero p then NaN else inf_of (neg p \<noteq> neg z))"
  by (cases z; cases p; simp add: js_div_def isNaN_def)

lemma js_div_by_zero_cases:
  "is_zero z \<Longrightarrow> js_div p z = NaN \<or> js_div p z = PosInf \<or> js_div p z = NegInf"
  by (simp add: js_div_by_zero inf_of_def)

text \<open>The two quotients of the example listings, rounded as the division rounds them.\<close>

lemma round64_200: "round64 200 = Fin 200"
proof -
  have b: "binade 200 = 7"
    by (simp add: binade_def exponent_up.simps)
  have "round_half_even (200 / 2 powi (7 - 52)) = 7036874417766400"
    by (simp add: round_half_even_def)
  with b show ?thesis
    by (simp add: round64_def)
qed

lemma round64_1600_7: "round64 (1600 / 7) = Fin (8042142191733029 / 35184372088832)"
proof -
  have b: "binade (1600 / 7) = 7"
    by (simp add: binade_def exponent_up.simps)
  have "round_half_even (1600 / 7 / 2 powi (7 - 52)) = 8042142191733029"
    by (simp add: round_half_even_def)
  with b show ?thesis
    by (simp add: round64_def)
qed

text \<open>Two checks of the rounding against well-known doubles: the double nearest to one
  tenth, and the two ties next to one, which go to the even significand.\<close>

lemma round64_tenth: "round64 (1 / 10) = Fin (3602879701896397 / 36028797018963968)"
proof -
  have b: "binade (1 / 10) = - 4"
    by (simp add: binade_def exponent_down.simps)
  have "round_half_even (1 / 10 / 2 powi (- 4 - 52)) = 7205759403792794"
    by (simp add: round_half_even_def)
  with b show ?thesis
    by (simp add: round64_def)
qed

lemma round64_tie_to_even:
  "round64 (1 + 2 powi (- 53)) = Fin 1"
  "round64 (1 + 3 * 2 powi (- 53)) = Fin (1 + 2 powi (- 51))"
proof -
  have b: "binade (1 + 2 powi (- 53)) = 0" "binade (1 + 3 * 2 powi (- 53)) = 0"
    by (simp_all add: binade_def exponent_up.simps)
  have "round_half_even ((1 + 2 powi (- 53)) / 2 powi (0 - 52)) = 4503599627370496"
    "round_half_even ((1 + 3 * 2 powi (- 53)) / 2 powi (0 - 52)) = 4503599627370498"
    by (simp_all add: round_half_even_def)
  with b show "round64 (1 + 2 powi (- 53)) = Fin 1"
    "round64 (1 + 3 * 2 powi (- 53)) = Fin (1 + 2 powi (- 51))"
    by (simp_all add: round64_def)
qed

lemma quotient_A: "js_div (Fin 300000) (Fin 1500) = Fin 200"
  by (simp add: js_div_def round64_200)

lemma quotient_B: "js_div (Fin 320000) (Fin 1400) = Fin (8042142191733029 / 35184372088832)"
  by (simp add: js_div_def round64_1600_7)

section \<open>Properties of the comparison engine\<close>

lemma getComparison_is_verdict: "is_verdict (getComparison a b h)"
  by (simp add: is_verdict_def getComparison_def Tie_def FirstWins_def SecondWins_def Let_def)

lemma getComparison_rules:
  "js_eq v1 v2 \<Longrightarrow> getComparison v1 v2 h = Tie"
  "\<not> js_eq v1 v2 \<Longrightarrow> js_lt v2 v1 \<Longrightarrow> getComparison v1 v2 True = FirstWins"
  "\<not> js_eq v1 v2 \<Longrightarrow> \<not> js_lt v2 v1 \<Longrightarrow> getComparison v1 v2 True = SecondWins"
  "\<not> js_eq v1 v2 \<Longrightarrow> js_lt v1 v2 \<Longrightarrow> getComparison v1 v2 False = FirstWins"
  "\<not> js_eq v1 v2 \<Longrightarrow> \<not> js_lt v1 v2 \<Longrightarrow> getComparison v1 v2 False = SecondWins"
  by (simp_all add: getComparison_def Tie_def FirstWins_def SecondWins_def js_gt_def)

lemma verdicts_distinct:
  "Tie \<noteq> FirstWins" "Tie \<noteq> SecondWins" "FirstWins \<noteq> SecondWins"
  "FirstWins \<noteq> Tie" "SecondWins \<noteq> Tie" "SecondWins \<noteq> FirstWins"
  by (simp_all add: Tie_def FirstWins_def SecondWins_def)

text \<open>The list the panel tallies is the list of the nine verdicts of the specification.\<close>

lemma tally_eq: "tally r = tallied_verdicts r"
  by (simp add: tally_def tallied_verdicts_def tallied_attributes_def allComparisons_def
      object_values_def getAnalysis_def Let_def)

lemma length_tallied: "length (tallied_verdicts r) = 9"
  by (simp add: tallied_verdicts_def tallied_attributes_def)

lemma verdicts_tallied: "list_all is_verdict (tallied_verdicts r)"
  by (simp add: tallied_verdicts_def list_all_iff getComparison_is_verdict)

lemma attribute_verdict_eq:
  "attribute_verdict a r =
   getComparison (attribute_value a (property1 r)) (attribute_value a (property2 r))
     (higher_is_better a)"
  by (cases a) (simp_all add: attribute_verdict_def tally_eq tallied_verdicts_def
      tallied_attributes_def)

lemma attribute_verdict_tallied: "attribute_verdict a r \<in> set (tally r)"
proof -
  have "attribute_index a < length (tally r)"
    by (cases a) (simp_all add: tally_eq length_tallied)
  then show ?thesis
    unfolding attribute_verdict_def by (rule nth_mem)
qed

text \<open>Filtering on the class name counts the verdicts.\<close>

lemma count_first:
  "list_all is_verdict xs \<Longrightarrow>
   length (filter (\<lambda>item. cls item = ''winner-1'') xs) = count_list xs FirstWins"
  by (induction xs) (auto simp: is_verdict_def Tie_def FirstWins_def SecondWins_def)

lemma count_second:
  "list_all is_verdict xs \<Longrightarrow>
   length (filter (\<lambda>item. cls item = ''winner-2'') xs) = count_list xs SecondWins"
  by (induction xs) (auto simp: is_verdict_def Tie_def FirstWins_def SecondWins_def)

lemma count_tie:
  "list_all is_verdict xs \<Longrightarrow>
   length (filter (\<lambda>item. cls item = ''tie'') xs) = count_list xs Tie"
  by (induction xs) (auto simp: is_verdict_def Tie_def FirstWins_def SecondWins_def)

lemma count_partition:
  "list_all is_verdict xs \<Longrightarrow>
   count_list xs FirstWins + count_list xs SecondWins + count_list xs Tie = length xs"
  by (induction xs) (auto simp: is_verdict_def Tie_def FirstWins_def SecondWins_def)

lemma overall_counts:
  "property1Wins (overall_of r) = count_list (tallied_verdicts r) FirstWins"
  "property2Wins (overall_of r) = count_list (tallied_verdicts r) SecondWins"
  "ties (overall_of r) = count_list (tallied_verdicts r) Tie"
  using verdicts_tallied [of r]
  by (simp_all add: overall_of_def renderOverallWinner_def Let_def tally_eq [unfolded tally_def]
      count_first count_second count_tie)

lemma overall_badge:
  "winnerClass (overall_of r) =
     (if property2Wins (overall_of r) < property1Wins (overall_of r) then ''overall-winner-1''
      else if property1Wins (overall_of r) < property2Wins (overall_of r) then ''overall-winner-2''
      else ''overall-tie'')"
  "overallWinner (overall_of r) =
     (if property2Wins (overall_of r) < property1Wins (overall_of r)
      then ''Property '' @ show_int (prop_id (property1 r))
      else if property1Wins (overall_of r) < property2Wins (overall_of r)
      then ''Property '' @ show_int (prop_id (property2 r))
      else ''It's a Tie!'')"
  by (simp_all add: overall_of_def renderOverallWinner_def Let_def)

lemma renderComparisonResults_Some: "renderComparisonResults (Some r) = Some (overall_of r)"
  by (simp add: renderComparisonResults_def overall_of_def)

text \<open>The verdicts of the example inputs.\<close>

lemma verdicts_A_B:
  "tallied_verdicts (response_of listing_A listing_B) =
   [FirstWins, FirstWins, Tie, Tie, Tie, FirstWins, SecondWins, FirstWins, FirstWins]"
  by (simp add: tallied_verdicts_def tallied_attributes_def response_of_def listing_A_def
      listing_B_def js_length_def quotient_A quotient_B getComparison_rules)

lemma verdicts_B_A:
  "tallied_verdicts (response_of listing_B listing_A) =
   [SecondWins, SecondWins, Tie, Tie, Tie, SecondWins, FirstWins, SecondWins, SecondWins]"
  by (simp add: tallied_verdicts_def tallied_attributes_def response_of_def listing_A_def
      listing_B_def js_length_def quotient_A quotient_B getComparison_rules)

lemma verdicts_Z_B:
  "tallied_verdicts (response_of listing_Z listing_B) =
   [FirstWins, SecondWins, Tie, Tie, Tie, FirstWins, SecondWins, SecondWins, FirstWins]"
  by (simp add: tallied_verdicts_def tallied_attributes_def response_of_def listing_A_def
      listing_Z_def listing_B_def js_length_def js_div_by_zero isNaN_def inf_of_def quotient_B
      getComparison_rules)

lemma verdicts_N_B:
  "tallied_verdicts (response_of listing_N listing_B) =
   [FirstWins, SecondWins, Tie, Tie, Tie, FirstWins, SecondWins, SecondWins, FirstWins]"
  by (simp add: tallied_verdicts_def tallied_attributes_def response_of_def listing_A_def
      listing_N_def listing_B_def js_length_def js_div_by_zero isNaN_def inf_of_def quotient_B
      getComparison_rules)

lemma verdicts_B_N:
  "tallied_verdicts (response_of listing_B listing_N) =
   [SecondWins, FirstWins, Tie, Tie, Tie, SecondWins, FirstWins, SecondWins, SecondWins]"
  by (simp add: tallied_verdicts_def tallied_attributes_def response_of_def listing_A_def
      listing_N_def listing_B_def js_length_def js_div_by_zero isNaN_def inf_of_def quotient_B
      getComparison_rules)

section \<open>Claims about the comparison engine\<close>

text \<open>
  C1. For every pair of numbers and either polarity: equal values give \<open>Tie\<close>;
  otherwise, when higher is better, the side with the greater value wins, and when lower
  is better, the side with the smaller value wins. This fails when a value is \<open>NaN\<close>:
  \<open>NaN\<close> compared with itself gives no \<open>Tie\<close>, and against any value the second side
  is named the winner under either polarity although it is neither greater nor smaller.
  The panel produces such a value itself: a listing with price and size zero has the
  quotient \<open>NaN\<close>, and compared with itself it loses the price-per-area row.
\<close>

theorem per_attribute_verdict_counterexample:
  "getComparison NaN NaN True = SecondWins \<and>
   getComparison NaN NaN False = SecondWins \<and>
   getComparison NaN NaN True \<noteq> Tie \<and>
   getComparison (Fin 5) NaN True = SecondWins \<and> \<not> js_gt NaN (Fin 5) \<and>
   getComparison (Fin 5) NaN False = SecondWins \<and> \<not> js_lt NaN (Fin 5) \<and>
   attribute_value PricePerArea listing_N = NaN \<and>
   attribute_verdict PricePerArea (response_of listing_N listing_N) = SecondWins"
proof -
  have n: "attribute_value PricePerArea listing_N = NaN"
    by (simp add: listing_N_def listing_A_def js_div_by_zero isNaN_def)
  have p: "property1 (response_of listing_N listing_N) = listing_N"
    "property2 (response_of listing_N listing_N) = listing_N"
    by (simp_all add: response_of_def)
  have g: "getComparison NaN NaN True = SecondWins" "getComparison NaN NaN False = SecondWins"
    "getComparison (Fin 5) NaN True = SecondWins" "getComparison (Fin 5) NaN False = SecondWins"
    by (simp_all add: getComparison_def SecondWins_def js_gt_def)
  from n have d: "js_div (price listing_N) (size_sqft listing_N) = NaN"
    by simp
  have v: "attribute_verdict PricePerArea (response_of listing_N listing_N) = SecondWins"
    by (simp add: attribute_verdict_eq p d g)
  from n g v show ?thesis
    by (simp add: verdicts_distinct js_gt_def)
qed

text \<open>
  C1, amended. For every pair of numbers neither of which is \<open>NaN\<close> and either
  polarity: the verdict is \<open>Tie\<close> exactly when the two values are equal; it is
  \<open>FirstWins\<close> exactly when they differ and the first is the greater one (higher is
  better) or the smaller one (lower is better); and it is \<open>SecondWins\<close> exactly when they
  differ and the second is the greater, respectively the smaller one. Equality and order
  are those of the language (\<open>===\<close>, \<open>>\<close>, \<open><\<close>). For each of the nine attributes the
  panel applies \<open>getComparison\<close> to the two values of the attribute with the polarity
  the specification declares for it.
\<close>

theorem per_attribute_verdict:
  "v1 \<noteq> NaN \<Longrightarrow> v2 \<noteq> NaN \<Longrightarrow>
   (getComparison v1 v2 h = Tie \<longleftrightarrow> js_eq v1 v2) \<and>
   (getComparison v1 v2 h = FirstWins \<longleftrightarrow>
      \<not> js_eq v1 v2 \<and> (if h then js_gt v1 v2 else js_lt v1 v2)) \<and>
   (getComparison v1 v2 h = SecondWins \<longleftrightarrow>
      \<not> js_eq v1 v2 \<and> (if h then js_gt v2 v1 else js_lt v2 v1)) \<and>
   attribute_verdict a r =
     getComparison (attribute_value a (property1 r)) (attribute_value a (property2 r))
       (higher_is_better a)"
proof -
  assume "v1 \<noteq> NaN" "v2 \<noteq> NaN"
  then consider "js_eq v1 v2" | "js_lt v1 v2" | "js_lt v2 v1"
    using js_trichotomy by blast
  then have "(getComparison v1 v2 h = Tie \<longleftrightarrow> js_eq v1 v2) \<and>
    (getComparison v1 v2 h = FirstWins \<longleftrightarrow>
       \<not> js_eq v1 v2 \<and> (if h then js_gt v1 v2 else js_lt v1 v2)) \<and>
    (getComparison v1 v2 h = SecondWins \<longleftrightarrow>
       \<not> js_eq v1 v2 \<and> (if h then js_gt v2 v1 else js_lt v2 v1))"
  proof cases
    case 1
    then show ?thesis
      by (simp add: getComparison_rules verdicts_distinct)
  next
    case 2
    with js_lt_asym [of v1 v2] have "\<not> js_lt v2 v1" "\<not> js_eq v1 v2"
      by simp_all
    with 2 show ?thesis
      by (cases h) (simp_all add: getComparison_rules verdicts_distinct js_gt_def)
  next
    case 3
    with js_lt_asym [of v2 v1] have "\<not> js_lt v1 v2" "\<not> js_eq v1 v2"
      by (simp_all add: js_eq_sym)
    with 3 show ?thesis
      by (cases h) (simp_all add: getComparison_rules verdicts_distinct js_gt_def)
  qed
  then show ?thesis
    by (simp only: attribute_verdict_eq simp_thms)
qed

theorem per_attribute_verdict_witness:
  "Fin 3 \<noteq> NaN \<and> Fin 5 \<noteq> NaN \<and>
   getComparison (Fin 3) (Fin 3) True = Tie \<and>
   getComparison (Fin 5) (Fin 3) True = FirstWins \<and>
   getComparison (Fin 3) (Fin 5) True = SecondWins \<and>
   getComparison (Fin 3) (Fin 5) False = FirstWins \<and>
   getComparison (Fin 5) (Fin 3) False = SecondWins \<and>
   attribute_verdict PricePerArea (response_of listing_A listing_B) =
     getComparison (Fin 200) (Fin (8042142191733029 / 35184372088832)) False \<and>
   getComparison (Fin 200) (Fin (8042142191733029 / 35184372088832)) False = FirstWins"
proof -
  let ?q = "Fin (8042142191733029 / 35184372088832)"
  have q: "attribute_value PricePerArea (property1 (response_of listing_A listing_B)) = Fin 200"
    "attribute_value PricePerArea (property2 (response_of listing_A listing_B)) = ?q"
    "higher_is_better PricePerArea = False"
    by (simp_all add: response_of_def listing_A_def listing_B_def quotient_A quotient_B)
  from per_attribute_verdict [of "Fin 3" "Fin 3" True]
  have 1: "getComparison (Fin 3) (Fin 3) True = Tie"
    by simp
  from per_attribute_verdict [of "Fin 5" "Fin 3" True]
  have 2: "getComparison (Fin 5) (Fin 3) True = FirstWins"
    by (simp add: js_gt_def)
  from per_attribute_verdict [of "Fin 3" "Fin 5" True]
  have 3: "getComparison (Fin 3) (Fin 5) True = SecondWins"
    by (simp add: js_gt_def)
  from per_attribute_verdict [of "Fin 3" "Fin 5" False]
  have 4: "getComparison (Fin 3) (Fin 5) False = FirstWins"
    by simp
  from per_attribute_verdict [of "Fin 5" "Fin 3" False]
  have 5: "getComparison (Fin 5) (Fin 3) False = SecondWins"
    by simp
  from per_attribute_verdict [of "Fin 200" ?q False PricePerArea "response_of listing_A listing_B"]
  have 6: "getComparison (Fin 200) ?q False = FirstWins"
    "attribute_verdict PricePerArea (response_of listing_A listing_B) =
      getComparison (attribute_value PricePerArea (property1 (response_of listing_A listing_B)))
        (attribute_value PricePerArea (property2 (response_of listing_A listing_B)))
        (higher_is_better PricePerArea)"
    by simp_all
  from 6(2) have 7: "attribute_verdict PricePerArea (response_of listing_A listing_B) =
      getComparison (Fin 200) ?q False"
    by (simp only: q)
  from 1 2 3 4 5 6(1) 7 show ?thesis
    by simp
qed

text \<open>
  C10. Exchanging the two values exchanges \<open>FirstWins\<close> and \<open>SecondWins\<close> and keeps
  \<open>Tie\<close>. This fails when a value is \<open>NaN\<close>: every comparison with \<open>NaN\<close> is false, so
  the second side wins in both orders.
\<close>

theorem getComparison_swap_counterexample:
  "getComparison (Fin 5) NaN True \<noteq> swap_verdict (getComparison NaN (Fin 5) True)"
  by (simp add: getComparison_def swap_verdict_def Tie_def FirstWins_def SecondWins_def js_gt_def)

text \<open>
  C10, amended. For all values neither of which is \<open>NaN\<close> and for either polarity,
  exchanging the two values maps \<open>FirstWins\<close> to \<open>SecondWins\<close>, \<open>SecondWins\<close> to
  \<open>FirstWins\<close> and \<open>Tie\<close> to \<open>Tie\<close>.
\<close>

theorem getComparison_swap:
  "v1 \<noteq> NaN \<Longrightarrow> v2 \<noteq> NaN \<Longrightarrow>
   getComparison v2 v1 h = swap_verdict (getComparison v1 v2 h)"
proof -
  assume "v1 \<noteq> NaN" "v2 \<noteq> NaN"
  then consider "js_eq v1 v2" | "js_lt v1 v2" | "js_lt v2 v1"
    using js_trichotomy by blast
  then show ?thesis
  proof cases
    case 1
    then have "js_eq v2 v1" by (simp add: js_eq_sym)
    with 1 show ?thesis
      by (simp add: getComparison_rules swap_verdict_def verdicts_distinct)
  next
    case 2
    with js_lt_asym [of v1 v2] have "\<not> js_lt v2 v1" "\<not> js_eq v1 v2" "\<not> js_eq v2 v1"
      by (simp_all add: js_eq_sym)
    with 2 show ?thesis
      by (cases h) (simp_all add: getComparison_rules swap_verdict_def verdicts_distinct)
  next
    case 3
    with js_lt_asym [of v2 v1] have "\<not> js_lt v1 v2" "\<not> js_eq v1 v2" "\<not> js_eq v2 v1"
      by (simp_all add: js_eq_sym)
    with 3 show ?thesis
      by (cases h) (simp_all add: getComparison_rules swap_verdict_def verdicts_distinct)
  qed
qed

theorem getComparison_swap_witness:
  "Fin 3 \<noteq> NaN \<and> Fin 5 \<noteq> NaN \<and>
   getComparison (Fin 3) (Fin 5) True = SecondWins \<and>
   getComparison (Fin 5) (Fin 3) True = FirstWins"
  using getComparison_swap [of "Fin 3" "Fin 5" True]
  by (simp add: getComparison_rules swap_verdict_def verdicts_distinct)

text \<open>
  A \<open>NaN\<close> reaches the comparison from the panel itself: a listing with price and size
  zero has the quotient \<open>NaN\<close>, and it loses the price-per-area comparison on either side.
\<close>

lemma nan_quotient_loses_on_both_sides:
  "attribute_value PricePerArea listing_N = NaN"
  "attribute_verdict PricePerArea (response_of listing_N listing_B) = SecondWins"
  "attribute_verdict PricePerArea (response_of listing_B listing_N) = SecondWins"
  using verdicts_N_B verdicts_B_N
  by (simp_all add: attribute_verdict_def tally_eq listing_N_def listing_A_def js_div_by_zero
      isNaN_def)

text \<open>
  C9. The three counts of the score breakdown add up to nine for every stored result,
  in particular when both sizes are nonzero.
\<close>

theorem tally_sums_to_nine:
  "property1Wins (overall_of r) + property2Wins (overall_of r) + ties (overall_of r) = 9"
  using count_partition [OF verdicts_tallied, of r]
  by (simp add: overall_counts length_tallied)

theorem tally_sums_to_nine_witness:
  "\<not> is_zero (size_sqft listing_A) \<and> \<not> is_zero (size_sqft listing_B) \<and>
   property1Wins (overall_of (response_of listing_A listing_B)) = 5 \<and>
   property2Wins (overall_of (response_of listing_A listing_B)) = 1 \<and>
   ties (overall_of (response_of listing_A listing_B)) = 3"
proof -
  have "property1Wins (overall_of (response_of listing_A listing_B)) = 5"
    "property2Wins (overall_of (response_of listing_A listing_B)) = 1"
    by (simp_all add: overall_counts verdicts_A_B verdicts_distinct)
  with tally_sums_to_nine [of "response_of listing_A listing_B"] show ?thesis
    by (simp add: listing_A_def listing_B_def)
qed

text \<open>
  C2. The overall winner is the side with strictly more wins among the nine tallied
  verdicts, and is a tie exactly when the two win counts are equal, however many
  attributes tied; the three counts that are shown are the numbers of \<open>FirstWins\<close>,
  \<open>SecondWins\<close> and \<open>Tie\<close> among the nine verdicts.
\<close>

theorem overall_winner_by_majority:
  "property1Wins (overall_of r) = count_list (tallied_verdicts r) FirstWins \<and>
   property2Wins (overall_of r) = count_list (tallied_verdicts r) SecondWins \<and>
   ties (overall_of r) = count_list (tallied_verdicts r) Tie \<and>
   (property2Wins (overall_of r) < property1Wins (overall_of r) \<longrightarrow>
      winnerClass (overall_of r) = ''overall-winner-1'' \<and>
      overallWinner (overall_of r) = ''Property '' @ show_int (prop_id (property1 r))) \<and>
   (property1Wins (overall_of r) < property2Wins (overall_of r) \<longrightarrow>
      winnerClass (overall_of r) = ''overall-winner-2'' \<and>
      overallWinner (overall_of r) = ''Property '' @ show_int (prop_id (property2 r))) \<and>
   (property1Wins (overall_of r) = property2Wins (overall_of r) \<longleftrightarrow>
      winnerClass (overall_of r) = ''overall-tie'') \<and>
   renderComparisonResults (Some r) = Some (overall_of r)"
  by (auto simp: overall_counts overall_badge renderComparisonResults_Some)

theorem overall_winner_by_majority_witness:
  "property2Wins (overall_of (response_of listing_A listing_B))
     < property1Wins (overall_of (response_of listing_A listing_B)) \<and>
   winnerClass (overall_of (response_of listing_A listing_B)) = ''overall-winner-1'' \<and>
   overallWinner (overall_of (response_of listing_A listing_B)) = ''Property 1'' \<and>
   property1Wins (overall_of (response_of listing_B listing_A))
     < property2Wins (overall_of (response_of listing_B listing_A)) \<and>
   winnerClass (overall_of (response_of listing_B listing_A)) = ''overall-winner-2'' \<and>
   overallWinner (overall_of (response_of listing_B listing_A)) = ''Property 1'' \<and>
   property1Wins (overall_of (response_of listing_Z listing_B))
     = property2Wins (overall_of (response_of listing_Z listing_B)) \<and>
   ties (overall_of (response_of listing_Z listing_B)) = 3 \<and>
   winnerClass (overall_of (response_of listing_Z listing_B)) = ''overall-tie''"
proof -
  let ?ab = "response_of listing_A listing_B"
  let ?ba = "response_of listing_B listing_A"
  let ?zb = "response_of listing_Z listing_B"
  have ids: "show_int (prop_id (property1 ?ab)) = ''1''"
    "show_int (prop_id (property2 ?ba)) = ''1''"
    by (simp_all add: response_of_def listing_A_def show_int_def show_nat.simps digit_char_def)
  have ab: "property2Wins (overall_of ?ab) < property1Wins (overall_of ?ab)"
    by (simp add: overall_counts verdicts_A_B verdicts_distinct)
  have ba: "property1Wins (overall_of ?ba) < property2Wins (overall_of ?ba)"
    by (simp add: overall_counts verdicts_B_A verdicts_distinct)
  have zb: "property1Wins (overall_of ?zb) = property2Wins (overall_of ?zb)"
    "count_list (tallied_verdicts ?zb) Tie = 3"
    by (simp_all add: overall_counts verdicts_Z_B verdicts_distinct)
  from ab overall_winner_by_majority [of ?ab]
  have 1: "winnerClass (overall_of ?ab) = ''overall-winner-1''"
    "overallWinner (overall_of ?ab) = ''Property '' @ show_int (prop_id (property1 ?ab))"
    by blast+
  from ba overall_winner_by_majority [of ?ba]
  have 2: "winnerClass (overall_of ?ba) = ''overall-winner-2''"
    "overallWinner (overall_of ?ba) = ''Property '' @ show_int (prop_id (property2 ?ba))"
    by blast+
  from zb(1) overall_winner_by_majority [of ?zb]
  have 3: "winnerClass (overall_of ?zb) = ''overall-tie''"
    "ties (overall_of ?zb) = count_list (tallied_verdicts ?zb) Tie"
    by blast+
  from ab ba zb 1 2 3 show ?thesis
    by (simp add: ids)
qed

text \<open>
  C3. When a side's size is zero the price-per-area comparison is skipped and left out of
  the tally. The panel does not do so: for the first example listing with size zero the
  quotient is infinite, the second listing wins the comparison, and that verdict is
  among the nine that are counted; it turns a win of the first listing by three to two
  into a tie. With price and size zero the quotient is \<open>NaN\<close> and is compared all
  the same.
\<close>

theorem zero_size_skipped_counterexample:
  "is_zero (size_sqft listing_Z) \<and>
   attribute_value PricePerArea listing_Z = PosInf \<and>
   attribute_verdict PricePerArea (response_of listing_Z listing_B) = SecondWins \<and>
   tally (response_of listing_Z listing_B) ! 7 = SecondWins \<and>
   property1Wins (overall_of (response_of listing_Z listing_B)) = 3 \<and>
   property2Wins (overall_of (response_of listing_Z listing_B)) = 3 \<and>
   ties (overall_of (response_of listing_Z listing_B)) = 3 \<and>
   attribute_value PricePerArea listing_N = NaN \<and>
   attribute_verdict PricePerArea (response_of listing_N listing_B) = SecondWins"
proof -
  have "attribute_value PricePerArea listing_Z = PosInf"
    "attribute_value PricePerArea listing_N = NaN" "is_zero (size_sqft listing_Z)"
    by (simp_all add: listing_Z_def listing_N_def listing_A_def js_div_by_zero isNaN_def
        inf_of_def)
  then show ?thesis
    by (simp add: overall_counts attribute_verdict_def tally_eq verdicts_Z_B verdicts_N_B
        verdicts_distinct)
qed

text \<open>
  C3, amended. When a side's size is zero the price-per-area comparison is not skipped
  and nothing fails: the quotient of that side is \<open>NaN\<close> (when its price is zero or
  \<open>NaN\<close>) or an infinity, the two quotients are compared as lower-is-better like any
  other pair of values, and the verdict is one of the nine that are tallied.
\<close>

theorem zero_size_still_compared:
  "is_zero (size_sqft (property1 r)) \<or> is_zero (size_sqft (property2 r)) \<Longrightarrow>
   (is_zero (size_sqft (property1 r)) \<longrightarrow>
      attribute_value PricePerArea (property1 r) =
        (if isNaN (price (property1 r)) \<or> is_zero (price (property1 r)) then NaN
         else inf_of (neg (price (property1 r)) \<noteq> neg (size_sqft (property1 r))))) \<and>
   (is_zero (size_sqft (property2 r)) \<longrightarrow>
      attribute_value PricePerArea (property2 r) =
        (if isNaN (price (property2 r)) \<or> is_zero (price (property2 r)) then NaN
         else inf_of (neg (price (property2 r)) \<noteq> neg (size_sqft (property2 r))))) \<and>
   valueComp (getAnalysis (property1 r) (property2 r)) =
     getComparison (attribute_value PricePerArea (property1 r))
       (attribute_value PricePerArea (property2 r)) False \<and>
   attribute_verdict PricePerArea r = valueComp (getAnalysis (property1 r) (property2 r)) \<and>
   is_verdict (attribute_verdict PricePerArea r) \<and>
   attribute_verdict PricePerArea r \<in> set (tally r) \<and>
   length (tally r) = 9 \<and>
   property1Wins (overall_of r) + property2Wins (overall_of r) + ties (overall_of r) = 9"
proof -
  have "property1Wins (overall_of r) + property2Wins (overall_of r) + ties (overall_of r) = 9"
    using count_partition [OF verdicts_tallied, of r]
    by (simp add: overall_counts length_tallied)
  moreover have "valueComp (getAnalysis (property1 r) (property2 r)) =
      getComparison (attribute_value PricePerArea (property1 r))
        (attribute_value PricePerArea (property2 r)) False"
    by (simp add: getAnalysis_def)
  moreover have "attribute_verdict PricePerArea r \<in> set (tally r)"
    by (rule attribute_verdict_tallied)
  moreover have "attribute_verdict PricePerArea r =
      valueComp (getAnalysis (property1 r) (property2 r))"
    by (simp add: attribute_verdict_eq getAnalysis_def)
  moreover have "is_verdict (attribute_verdict PricePerArea r)"
    by (simp add: attribute_verdict_eq getComparison_is_verdict)
  ultimately show ?thesis
    by (simp add: js_div_by_zero tally_eq length_tallied)
qed

theorem zero_size_still_compared_witness:
  "is_zero (size_sqft (property1 (response_of listing_Z listing_B))) \<and>
   attribute_value PricePerArea (property1 (response_of listing_Z listing_B)) = PosInf \<and>
   attribute_verdict PricePerArea (response_of listing_Z listing_B) = SecondWins \<and>
   attribute_verdict PricePerArea (response_of listing_Z listing_B)
     \<in> set (tally (response_of listing_Z listing_B)) \<and>
   is_zero (size_sqft (property2 (response_of listing_B listing_N))) \<and>
   attribute_value PricePerArea (property2 (response_of listing_B listing_N)) = NaN \<and>
   attribute_verdict PricePerArea (response_of listing_B listing_N) = SecondWins \<and>
   attribute_verdict PricePerArea (response_of listing_B listing_N)
     \<in> set (tally (response_of listing_B listing_N))"
proof -
  let ?zb = "response_of listing_Z listing_B"
  let ?bn = "response_of listing_B listing_N"
  have z: "is_zero (size_sqft (property1 ?zb))" "is_zero (size_sqft (property2 ?bn))"
    by (simp_all add: response_of_def listing_Z_def listing_N_def)
  have q: "(if isNaN (price (property1 ?zb)) \<or> is_zero (price (property1 ?zb)) then NaN
            else inf_of (neg (price (property1 ?zb)) \<noteq> neg (size_sqft (property1 ?zb))))
           = PosInf"
    "(if isNaN (price (property2 ?bn)) \<or> is_zero (price (property2 ?bn)) then NaN
      else inf_of (neg (price (property2 ?bn)) \<noteq> neg (size_sqft (property2 ?bn))))
     = NaN"
    by (simp_all add: response_of_def listing_Z_def listing_N_def listing_A_def isNaN_def
        inf_of_def)
  have v: "attribute_verdict PricePerArea ?zb = SecondWins"
    "attribute_verdict PricePerArea ?bn = SecondWins"
    by (simp_all add: attribute_verdict_def tally_eq verdicts_Z_B verdicts_B_N)
  from z(1) zero_size_still_compared [of ?zb]
  have 1: "attribute_value PricePerArea (property1 ?zb) =
      (if isNaN (price (property1 ?zb)) \<or> is_zero (price (property1 ?zb)) then NaN
       else inf_of (neg (price (property1 ?zb)) \<noteq> neg (size_sqft (property1 ?zb))))"
    "attribute_verdict PricePerArea ?zb \<in> set (tally ?zb)"
    by blast+
  from z(2) zero_size_still_compared [of ?bn]
  have 2: "attribute_value PricePerArea (property2 ?bn) =
      (if isNaN (price (property2 ?bn)) \<or> is_zero (price (property2 ?bn)) then NaN
       else inf_of (neg (price (property2 ?bn)) \<noteq> neg (size_sqft (property2 ?bn))))"
    "attribute_verdict PricePerArea ?bn \<in> set (tally ?bn)"
    by blast+
  from 1(1) q(1) have a1: "attribute_value PricePerArea (property1 ?zb) = PosInf"
    by (rule trans)
  from 2(1) q(2) have a2: "attribute_value PricePerArea (property2 ?bn) = NaN"
    by (rule trans)
  from z v a1 a2 1(2) 2(2) show ?thesis
    by blast
qed

section \<open>Properties of the panels\<close>

lemma round64_1: "round64 1 = Fin 1"
proof -
  have b: "binade 1 = 0"
    by (simp add: binade_def exponent_up.simps)
  have "round_half_even (1 / 2 powi (0 - 52)) = 4503599627370496"
    by (simp add: round_half_even_def)
  with b show ?thesis
    by (simp add: round64_def)
qed

lemma round64_2: "round64 2 = Fin 2"
proof -
  have b: "binade 2 = 1"
    by (simp add: binade_def exponent_up.simps)
  have "round_half_even (2 / 2 powi (1 - 52)) = 4503599627370496"
    by (simp add: round_half_even_def)
  with b show ?thesis
    by (simp add: round64_def)
qed

lemma parseInt_examples:
  "parseInt ''1'' = Fin 1" "parseInt ''2'' = Fin 2" "parseInt ''01'' = Fin 1"
  by (simp_all add: parseInt_def is_whitespace_def is_digit_def digit_value_def digits_value_def
      round64_1 round64_2)

text \<open>The decimal rendering of a status code determines the code.\<close>

lemma digit_value_digit_char: "d < 10 \<Longrightarrow> digit_value (digit_char d) = Some d"
proof -
  assume "d < 10"
  then have "d = 0 \<or> d = 1 \<or> d = 2 \<or> d = 3 \<or> d = 4 \<or> d = 5 \<or> d = 6 \<or> d = 7
    \<or> d = 8 \<or> d = 9"
    by auto
  then show ?thesis
    by (elim disjE) (simp_all add: digit_char_def digit_value_def)
qed

lemma digits_value_snoc:
  "digits_value r (ds @ [c]) =
   (case digit_value c of None \<Rightarrow> digits_value r ds | Some d \<Rightarrow> digits_value r ds * r + d)"
  by (simp add: digits_value_def split: option.splits)

lemma digits_value_single:
  "digits_value r [c] = (case digit_value c of None \<Rightarrow> 0 | Some d \<Rightarrow> d)"
  by (simp add: digits_value_def split: option.splits)

lemma show_nat_roundtrip: "digits_value 10 (show_nat n) = n"
proof (induction n rule: show_nat.induct)
  case (1 n)
  show ?case
  proof (cases "n < 10")
    case True
    then have "show_nat n = [digit_char n]"
      by (subst show_nat.simps) simp
    with True show ?thesis
      by (simp add: digits_value_single digit_value_digit_char)
  next
    case False
    then have s: "show_nat n = show_nat (n div 10) @ [digit_char (n mod 10)]"
      by (subst show_nat.simps) simp
    from False 1 have "digits_value 10 (show_nat (n div 10)) = n div 10"
      by simp
    then show ?thesis
      by (simp add: s digits_value_snoc digit_value_digit_char)
  qed
qed

lemma show_nat_inj: "show_nat m = show_nat n \<Longrightarrow> m = n"
proof -
  assume "show_nat m = show_nat n"
  then have "digits_value 10 (show_nat m) = digits_value 10 (show_nat n)"
    by (rule arg_cong)
  then show ?thesis
    by (simp only: show_nat_roundtrip)
qed

lemma show_nat_examples: "show_nat 500 = ''500''" "show_nat 404 = ''404''"
  by (simp_all add: show_nat.simps digit_char_def)

text \<open>What the rest of a call does to the state, by the way the call ends.\<close>

lemma await_json_cases:
  "await_json msg (Rejected err) = Inl err"
  "\<not> ok code \<Longrightarrow> await_json msg (Response code body) = Inl (Error (msg code))"
  "ok code \<Longrightarrow> await_json msg (Response code body) = body"
  by (simp_all add: await_json_def)

lemma compare_settle_fields:
  "compareLoading (compareProperties_settle outcome s) = False"
  "compareId1 (compareProperties_settle outcome s) = compareId1 s"
  "compareId2 (compareProperties_settle outcome s) = compareId2 s"
  "comparisonResult (compareProperties_settle outcome s) =
     (case await_json compare_errorMsg outcome of
        Inr result \<Rightarrow> Some result | Inl err \<Rightarrow> comparisonResult s)"
  "compare_error (compareProperties_settle outcome s) =
     (case await_json compare_errorMsg outcome of
        Inr result \<Rightarrow> compare_error s | Inl err \<Rightarrow> Some (error_message err))"
  by (simp_all add: compareProperties_settle_def Let_def split: sum.splits)

lemma search_settle_fields:
  "search_loading (handleSearch_settle outcome s) = False"
  "searchResults (handleSearch_settle outcome s) =
     (case await_json search_errorMsg outcome of
        Inr result \<Rightarrow> Some result | Inl err \<Rightarrow> searchResults s)"
  "search_error (handleSearch_settle outcome s) =
     (case await_json search_errorMsg outcome of
        Inr result \<Rightarrow> search_error s | Inl err \<Rightarrow> Some (error_message err))"
  by (simp_all add: handleSearch_settle_def Let_def split: sum.splits)

lemma compare_begin_fields:
  "comparisonResult (fst (compareProperties_begin s)) = comparisonResult s"
  "compareId1 (fst (compareProperties_begin s)) = compareId1 s"
  "compareId2 (fst (compareProperties_begin s)) = compareId2 s"
  by (simp_all add: compareProperties_begin_def Let_def)

lemma compare_begin_request:
  "snd (compareProperties_begin s) \<noteq> None \<Longrightarrow>
   compareLoading (fst (compareProperties_begin s)) \<and>
   compare_error (fst (compareProperties_begin s)) = None \<and>
   compareId1 s \<noteq> compareId2 s"
  by (simp add: compareProperties_begin_def Let_def split: if_splits)

lemma compare_begin_example:
  "compareProperties_begin CompareProperties_init =
   (CompareProperties_init\<lparr>compareLoading := True\<rparr>, Some \<lparr>id1 = Fin 1, id2 = Fin 2\<rparr>)"
  by (simp add: compareProperties_begin_def CompareProperties_init_def parseInt_examples
      isNaN_def)

lemma search_resetForm_eq:
  "search_resetForm s = SearchProperties_init\<lparr>search_loading := search_loading s\<rparr>"
  by (simp add: search_resetForm_def SearchProperties_init_def)

lemma pred_resetForm_eq:
  "pred_resetForm s = Prediction_init\<lparr>pred_loading := pred_loading s\<rparr>"
  by (simp add: pred_resetForm_def Prediction_init_def)

lemma rec_resetForm_eq:
  "rec_resetForm s = Recommendation_init\<lparr>rec_loading := rec_loading s\<rparr>"
  by (simp add: rec_resetForm_def Recommendation_init_def)

lemma search_begin_example:
  "handleSearch_begin Number_of_example search_form =
   (search_form\<lparr>search_loading := True\<rparr>,
    Some \<lparr>req_location = ''Austin'', req_budget = Fin 500000, preferences = None\<rparr>)"
  by (simp add: handleSearch_begin_def search_form_def SearchProperties_init_def
      Number_of_example_def trim_def is_whitespace_def js_le_def buildPreferences_def)

lemma predict_begin_example:
  "fst (handlePredict_begin Number_of_example 2025 prediction_form) =
     prediction_form\<lparr>pred_loading := True\<rparr>"
  "snd (handlePredict_begin Number_of_example 2025 prediction_form) \<noteq> None"
  by (simp_all add: handlePredict_begin_def pred_validateForm_def validateField_def truthy_def
      prediction_form_def Prediction_init_def Number_of_example_def trim_def is_whitespace_def
      js_le_def js_ge_def js_gt_def isNaN_def)

lemma recommend_begin_example:
  "handleRecommendation_begin Number_of_example recommendation_form =
   (recommendation_form\<lparr>rec_loading := True\<rparr>,
    Some \<lparr>user_budget = Fin 500000, user_min_bedrooms = Fin 3\<rparr>)"
  by (simp add: handleRecommendation_begin_def rec_validateForm_def truthy_def
      recommendation_form_def Recommendation_init_def Number_of_example_def trim_def
      is_whitespace_def js_le_def isNaN_def)

section \<open>Claims about the panels\<close>

text \<open>
  C6. For every response to the compare request whose status is not a success status:
  for 404 the stored error message is exactly "Property ID not found", and for every
  other status it is "HTTP error! status: " followed by the status code in decimal. This
  holds for the settling step on any state, and for a whole click that sent a request.
\<close>

theorem compare_error_message:
  "\<not> ok code \<Longrightarrow>
   compare_error (compareProperties_settle (Response code body) s) =
     Some (if code = 404 then ''Property ID not found''
           else ''HTTP error! status: '' @ show_nat code) \<and>
   (snd (compareProperties_begin s) \<noteq> None \<longrightarrow>
      compare_error (fst (compareProperties (Response code body) s)) =
        Some (if code = 404 then ''Property ID not found''
              else ''HTTP error! status: '' @ show_nat code))"
  by (auto simp: compareProperties_def compare_settle_fields await_json_cases
      compare_errorMsg_def http_error_def error_message_def split: prod.splits option.splits)

theorem compare_error_message_witness:
  "\<not> ok 404 \<and> \<not> ok 500 \<and>
   compare_error (fst (compareProperties (Response 404 (Inl NotAnError)) CompareProperties_init))
     = Some ''Property ID not found'' \<and>
   compare_error (fst (compareProperties (Response 500 (Inl NotAnError)) CompareProperties_init))
     = Some ''HTTP error! status: 500''"
proof -
  have k: "\<not> ok 404" "\<not> ok 500"
    by (simp_all add: ok_def)
  have b: "snd (compareProperties_begin CompareProperties_init) \<noteq> None"
    by (simp add: compare_begin_example)
  from k(1) b compare_error_message [of 404 "Inl NotAnError" CompareProperties_init]
  have 1: "compare_error
      (fst (compareProperties (Response 404 (Inl NotAnError)) CompareProperties_init)) =
      Some ''Property ID not found''"
    by simp
  from k(2) b compare_error_message [of 500 "Inl NotAnError" CompareProperties_init]
  have 2: "compare_error
      (fst (compareProperties (Response 500 (Inl NotAnError)) CompareProperties_init)) =
      Some (''HTTP error! status: '' @ show_nat 500)"
    by simp
  from k 1 2 show ?thesis
    by (simp add: show_nat_examples)
qed

text \<open>
  C5. A compare whose two identifiers are equal is rejected locally, with an error
  message and without a network call. The panel compares the two strings as they were
  typed, not the numbers it has parsed from them: with "1" and "01" in the two inputs the
  check passes and a request with \<open>id1 = id2 = 1\<close> is sent.
\<close>

theorem equal_ids_are_sent:
  "parseInt ''1'' = Fin 1 \<and> parseInt ''01'' = Fin 1 \<and>
   compareProperties_begin (CompareProperties_init\<lparr>compareId2 := ''01''\<rparr>) =
     (CompareProperties_init\<lparr>compareId2 := ''01'', compareLoading := True\<rparr>,
      Some \<lparr>id1 = Fin 1, id2 = Fin 1\<rparr>) \<and>
   snd (compareProperties outcome (CompareProperties_init\<lparr>compareId2 := ''01''\<rparr>)) =
     [\<lparr>id1 = Fin 1, id2 = Fin 1\<rparr>]"
  by (simp add: compareProperties_def compareProperties_begin_def CompareProperties_init_def
      parseInt_examples isNaN_def Let_def)

text \<open>What the check does reject: two inputs that hold the same string.\<close>

lemma equal_strings_rejected:
  "compareId1 s = compareId2 s \<Longrightarrow>
   snd (compareProperties_begin s) = None \<and>
   snd (compareProperties outcome s) = [] \<and>
   fst (compareProperties outcome s) = fst (compareProperties_begin s) \<and>
   (compare_error (fst (compareProperties_begin s)) = Some ''Please enter both property IDs'' \<or>
    compare_error (fst (compareProperties_begin s)) = Some ''Please enter different property IDs'')"
  by (simp add: compareProperties_def compareProperties_begin_def Let_def)

text \<open>
  C4. When a compare request completes, the stored result is replaced by the outcome of
  the new call, so that after a failure no stale result is shown next to the error. The
  panel keeps the stored result when the call fails: a result is stored, the next call is
  answered with status 500, and afterwards the old result is still stored and rendered
  while the error message is set.
\<close>

theorem stale_result_counterexample:
  "comparisonResult
     (fst (compareProperties (Response 500 (Inl NotAnError))
            (CompareProperties_init\<lparr>comparisonResult := Some (response_of listing_A listing_B)\<rparr>)))
     = Some (response_of listing_A listing_B) \<and>
   compare_error
     (fst (compareProperties (Response 500 (Inl NotAnError))
            (CompareProperties_init\<lparr>comparisonResult := Some (response_of listing_A listing_B)\<rparr>)))
     = Some ''HTTP error! status: 500'' \<and>
   renderComparisonResults
     (comparisonResult
       (fst (compareProperties (Response 500 (Inl NotAnError))
              (CompareProperties_init\<lparr>comparisonResult := Some (response_of listing_A listing_B)\<rparr>))))
     \<noteq> None"
proof -
  let ?s = "CompareProperties_init\<lparr>comparisonResult := Some (response_of listing_A listing_B)\<rparr>"
  have "compareProperties_begin ?s =
      (?s\<lparr>compareLoading := True\<rparr>, Some \<lparr>id1 = Fin 1, id2 = Fin 2\<rparr>)"
    by (simp add: compareProperties_begin_def CompareProperties_init_def parseInt_examples
        isNaN_def)
  then show ?thesis
    by (simp add: compareProperties_def compare_settle_fields await_json_def ok_def
        compare_errorMsg_def http_error_def error_message_def show_nat_examples
        renderComparisonResults_def)
qed

text \<open>
  C4, amended. When a request of the compare panel or of the search panel completes
  with a success status and a body that parses, the stored result is replaced by the new
  one; when it fails (the fetch rejects, the status is no success status, or the body
  does not parse) the stored result is left as it was and the error message is set. The
  busy flag is cleared in every case.
\<close>

theorem result_replaced_on_success_only:
  "(ok code \<longrightarrow>
      comparisonResult (compareProperties_settle (Response code (Inr result)) s) = Some result \<and>
      searchResults (handleSearch_settle (Response code (Inr found)) t) = Some found) \<and>
   (\<not> ok code \<longrightarrow>
      comparisonResult (compareProperties_settle (Response code body) s) = comparisonResult s \<and>
      compare_error (compareProperties_settle (Response code body) s) =
        Some (compare_errorMsg code) \<and>
      searchResults (handleSearch_settle (Response code sbody) t) = searchResults t \<and>
      search_error (handleSearch_settle (Response code sbody) t) = Some (search_errorMsg code)) \<and>
   (ok code \<longrightarrow>
      comparisonResult (compareProperties_settle (Response code (Inl err)) s) = comparisonResult s \<and>
      compare_error (compareProperties_settle (Response code (Inl err)) s) =
        Some (error_message err) \<and>
      searchResults (handleSearch_settle (Response code (Inl err)) t) = searchResults t \<and>
      search_error (handleSearch_settle (Response code (Inl err)) t) = Some (error_message err)) \<and>
   comparisonResult (compareProperties_settle (Rejected err) s) = comparisonResult s \<and>
   compare_error (compareProperties_settle (Rejected err) s) = Some (error_message err) \<and>
   searchResults (handleSearch_settle (Rejected err) t) = searchResults t \<and>
   search_error (handleSearch_settle (Rejected err) t) = Some (error_message err) \<and>
   \<not> compareLoading (compareProperties_settle outcome s) \<and>
   \<not> search_loading (handleSearch_settle soutcome t)"
  by (simp add: compare_settle_fields search_settle_fields await_json_cases error_message_def)

theorem result_replaced_on_success_only_witness:
  "ok 200 \<and> \<not> ok 500 \<and>
   comparisonResult
     (compareProperties_settle (Response 200 (Inr (response_of listing_B listing_A)))
       (CompareProperties_init\<lparr>comparisonResult := Some (response_of listing_A listing_B)\<rparr>))
     = Some (response_of listing_B listing_A) \<and>
   comparisonResult
     (compareProperties_settle (Response 500 (Inl NotAnError))
       (CompareProperties_init\<lparr>comparisonResult := Some (response_of listing_A listing_B)\<rparr>))
     = Some (response_of listing_A listing_B) \<and>
   comparisonResult
     (compareProperties_settle (Response 200 (Inl (Error ''Unexpected token'')))
       (CompareProperties_init\<lparr>comparisonResult := Some (response_of listing_A listing_B)\<rparr>))
     = Some (response_of listing_A listing_B)"
proof -
  let ?s = "CompareProperties_init\<lparr>comparisonResult := Some (response_of listing_A listing_B)\<rparr>"
  have k: "ok 200" "\<not> ok 500"
    by (simp_all add: ok_def)
  have old: "comparisonResult ?s = Some (response_of listing_A listing_B)"
    by simp
  from k(1) result_replaced_on_success_only
    [of 200 "response_of listing_B listing_A" ?s _ "SearchProperties_init :: unit search_state"]
  have 1: "comparisonResult
      (compareProperties_settle (Response 200 (Inr (response_of listing_B listing_A))) ?s) =
      Some (response_of listing_B listing_A)"
    by blast
  from k(2) result_replaced_on_success_only
    [of 500 _ ?s _ "SearchProperties_init :: unit search_state" "Inl NotAnError"]
  have 2: "comparisonResult (compareProperties_settle (Response 500 (Inl NotAnError)) ?s) =
      comparisonResult ?s"
    by blast
  from k(1) result_replaced_on_success_only
    [of 200 _ ?s _ "SearchProperties_init :: unit search_state" _ _ "Error ''Unexpected token''"]
  have 3: "comparisonResult
      (compareProperties_settle (Response 200 (Inl (Error ''Unexpected token''))) ?s) =
      comparisonResult ?s"
    by blast
  from k 1 2 3 show ?thesis
    by (simp only: old simp_thms)
qed

text \<open>
  C7. Every panel offers a reset that returns the panel state exactly to its initial
  state. The reset of the search panel leaves the busy flag alone: clicked while a search
  is in flight, it yields a state that is not the initial one.
\<close>

theorem reset_while_loading_counterexample:
  "search_loading (fst (handleSearch_begin Number_of_example search_form)) \<and>
   search_resetForm (fst (handleSearch_begin Number_of_example search_form))
     \<noteq> SearchProperties_init"
  by (simp add: search_begin_example search_resetForm_eq SearchProperties_init_def)

text \<open>
  C7, amended. The panels that define a reset (search, prediction and recommendation)
  set every form field, the stored result and the error message to their initial values
  and leave the busy flag as it is; on a panel that is not busy the reset returns the
  state exactly to the initial state.
\<close>

theorem reset_restores_idle_panel:
  "search_resetForm s = SearchProperties_init\<lparr>search_loading := search_loading s\<rparr> \<and>
   pred_resetForm p = Prediction_init\<lparr>pred_loading := pred_loading p\<rparr> \<and>
   rec_resetForm q = Recommendation_init\<lparr>rec_loading := rec_loading q\<rparr> \<and>
   (\<not> search_loading s \<longrightarrow> search_resetForm s = SearchProperties_init) \<and>
   (\<not> pred_loading p \<longrightarrow> pred_resetForm p = Prediction_init) \<and>
   (\<not> rec_loading q \<longrightarrow> rec_resetForm q = Recommendation_init)"
proof -
  have "\<not> search_loading s \<longrightarrow> search_resetForm s = SearchProperties_init"
    by (simp add: search_resetForm_eq SearchProperties_init_def)
  moreover have "\<not> pred_loading p \<longrightarrow> pred_resetForm p = Prediction_init"
    by (simp add: pred_resetForm_eq Prediction_init_def)
  moreover have "\<not> rec_loading q \<longrightarrow> rec_resetForm q = Recommendation_init"
    by (simp add: rec_resetForm_eq Recommendation_init_def)
  ultimately show ?thesis
    by (simp only: search_resetForm_eq pred_resetForm_eq rec_resetForm_eq simp_thms)
qed

theorem reset_restores_idle_panel_witness:
  "\<not> search_loading (handleSearch_settle (Response 200 (Inr ()))
       (fst (handleSearch_begin Number_of_example search_form))) \<and>
   search_resetForm (handleSearch_settle (Response 200 (Inr ()))
       (fst (handleSearch_begin Number_of_example search_form))) = SearchProperties_init \<and>
   \<not> pred_loading prediction_form \<and> pred_resetForm prediction_form = Prediction_init \<and>
   \<not> rec_loading recommendation_form \<and>
   rec_resetForm recommendation_form = Recommendation_init"
proof -
  let ?s = "handleSearch_settle (Response 200 (Inr ()))
      (fst (handleSearch_begin Number_of_example search_form))"
  have idle: "\<not> search_loading ?s" "\<not> pred_loading prediction_form"
    "\<not> rec_loading recommendation_form"
    by (simp_all add: search_settle_fields prediction_form_def Prediction_init_def
        recommendation_form_def Recommendation_init_def)
  from idle reset_restores_idle_panel [of ?s prediction_form recommendation_form]
  show ?thesis
    by blast
qed

text \<open>
  C8. Each of the six calls the panels issue sets the busy flag of its panel before the
  request goes out and clears it when the call settles, whatever the outcome: a parsed
  result, a response that is not ok, a body that does not parse, or a rejected fetch. A
  click that is rejected by the validation issues no call and leaves the flag as it was.
\<close>

theorem busy_flag_brackets_call:
  "(snd (compareProperties_begin c) \<noteq> None \<longrightarrow> compareLoading (fst (compareProperties_begin c))) \<and>
   \<not> compareLoading (compareProperties_settle co c') \<and>
   (snd (handleSearch_begin N s) \<noteq> None \<longrightarrow> search_loading (fst (handleSearch_begin N s))) \<and>
   \<not> search_loading (handleSearch_settle so s') \<and>
   (snd (handlePredict_begin N y p) \<noteq> None \<longrightarrow> pred_loading (fst (handlePredict_begin N y p))) \<and>
   \<not> pred_loading (handlePredict_settle po p') \<and>
   (snd (handleRecommendation_begin N q) \<noteq> None \<longrightarrow>
      rec_loading (fst (handleRecommendation_begin N q))) \<and>
   \<not> rec_loading (handleRecommendation_settle qo q') \<and>
   list_loading (fetchProperties_begin l) \<and>
   \<not> list_loading (fetchProperties_settle lo l') \<and>
   detailsLoading (fetchPropertyDetails_begin l) \<and>
   \<not> detailsLoading (fetchPropertyDetails_settle dout l') \<and>
   (snd (compareProperties_begin c) = None \<longrightarrow>
      compareLoading (fst (compareProperties co c)) = compareLoading c) \<and>
   (snd (compareProperties_begin c) \<noteq> None \<longrightarrow> \<not> compareLoading (fst (compareProperties co c)))"
proof -
  have "snd (compareProperties_begin c) \<noteq> None \<longrightarrow> compareLoading (fst (compareProperties_begin c))"
    by (simp add: compareProperties_begin_def Let_def)
  moreover have "snd (handleSearch_begin N s) \<noteq> None \<longrightarrow> search_loading (fst (handleSearch_begin N s))"
    by (simp add: handleSearch_begin_def)
  moreover have "snd (handlePredict_begin N y p) \<noteq> None \<longrightarrow>
      pred_loading (fst (handlePredict_begin N y p))"
    by (simp add: handlePredict_begin_def Let_def)
  moreover have "snd (handleRecommendation_begin N q) \<noteq> None \<longrightarrow>
      rec_loading (fst (handleRecommendation_begin N q))"
    by (simp add: handleRecommendation_begin_def Let_def)
  moreover have "\<not> pred_loading (handlePredict_settle po p')"
    by (simp add: handlePredict_settle_def Let_def)
  moreover have "\<not> rec_loading (handleRecommendation_settle qo q')"
    by (simp add: handleRecommendation_settle_def Let_def)
  moreover have "list_loading (fetchProperties_begin l)"
    "\<not> list_loading (fetchProperties_settle lo l')"
    "detailsLoading (fetchPropertyDetails_begin l)"
    "\<not> detailsLoading (fetchPropertyDetails_settle dout l')"
    by (simp_all add: fetchProperties_begin_def fetchProperties_settle_def
        fetchPropertyDetails_begin_def fetchPropertyDetails_settle_def Let_def)
  moreover have "snd (compareProperties_begin c) = None \<longrightarrow>
      compareLoading (fst (compareProperties co c)) = compareLoading c"
    by (simp add: compareProperties_def compareProperties_begin_def Let_def)
  moreover have "snd (compareProperties_begin c) \<noteq> None \<longrightarrow>
      \<not> compareLoading (fst (compareProperties co c))"
    by (auto simp: compareProperties_def compare_settle_fields split: prod.splits option.splits)
  ultimately show ?thesis
    by (simp only: compare_settle_fields search_settle_fields simp_thms)
qed

theorem busy_flag_brackets_call_witness:
  "compareLoading (fst (compareProperties_begin CompareProperties_init)) \<and>
   \<not> compareLoading (fst (compareProperties (Rejected (Error ''Failed to fetch''))
       CompareProperties_init)) \<and>
   search_loading (fst (handleSearch_begin Number_of_example search_form)) \<and>
   pred_loading (fst (handlePredict_begin Number_of_example 2025 prediction_form)) \<and>
   rec_loading (fst (handleRecommendation_begin Number_of_example recommendation_form)) \<and>
   compareLoading
     (fst (compareProperties (Response 200 (Inl NotAnError))
       (CompareProperties_init\<lparr>compareId2 := ''1'', compareLoading := True\<rparr>)))"
proof -
  let ?same = "CompareProperties_init\<lparr>compareId2 := ''1'', compareLoading := True\<rparr>"
  have sent: "snd (compareProperties_begin CompareProperties_init) \<noteq> None"
    "snd (handleSearch_begin Number_of_example search_form) \<noteq> None"
    "snd (handlePredict_begin Number_of_example 2025 prediction_form) \<noteq> None"
    "snd (handleRecommendation_begin Number_of_example recommendation_form) \<noteq> None"
    by (simp_all add: compare_begin_example search_begin_example predict_begin_example
        recommend_begin_example)
  have rejected: "snd (compareProperties_begin ?same) = None" "compareLoading ?same"
    by (simp_all add: compareProperties_begin_def CompareProperties_init_def Let_def)
  from sent busy_flag_brackets_call [of CompareProperties_init _ _ Number_of_example search_form
      _ _ 2025 prediction_form _ _ recommendation_form, where co = "Rejected (Error ''Failed to fetch'')"]
  have 1: "compareLoading (fst (compareProperties_begin CompareProperties_init))"
    "\<not> compareLoading (fst (compareProperties (Rejected (Error ''Failed to fetch''))
       CompareProperties_init))"
    "search_loading (fst (handleSearch_begin Number_of_example search_form))"
    "pred_loading (fst (handlePredict_begin Number_of_example 2025 prediction_form))"
    "rec_loading (fst (handleRecommendation_begin Number_of_example recommendation_form))"
    by blast+
  from rejected busy_flag_brackets_call [of ?same "Response 200 (Inl NotAnError)"]
  have 2: "compareLoading (fst (compareProperties (Response 200 (Inl NotAnError)) ?same))"
    by blast
  from 1 2 show ?thesis
    by blast
qed

end
